theory Spec2Isabelle
  imports Complex_Main
begin

section \<open>JavaScript values and strings\<close>

text \<open>
  The program is the class \<open>MapboxMapTools\<close>: a tool dispatcher (\<open>executeTool\<close>) and ten
  handlers that translate an argument object into calls on a Mapbox GL JS map. The model
  is a shallow embedding: a handler is a function from the argument object and the
  instance state to a result and the new state. A JavaScript exception is a value
  (\<open>Inl\<close> of a sum); the state returned beside it is the state at the moment of the
  throw, since mutations made before a throw stay.

  Strings are \<open>char list\<close>; a \<open>char\<close> stands for one code unit of a JavaScript string.
  Numbers carried by arguments are finite doubles, read as reals; the handlers never
  compute with them except to compare and to print them.
\<close>

datatype json =
  JNull | JBool bool | JNum real | JStr string | JArr "json list" | JObj "(string \<times> json) list"

type_synonym object = "(string \<times> json) list"

datatype js_error = Error string | TypeError string

fun message :: "js_error \<Rightarrow> string" where
  "message (Error m) = m"
| "message (TypeError m) = m"

text \<open>
  Printing a number (\<open>String(x)\<close> in a template literal, \<open>x.toFixed(d)\<close>) is the
  JavaScript runtime's work on doubles; it is a parameter of the model.
\<close>

record runtime =
  numberToString :: "real \<Rightarrow> string"
  toFixed :: "real \<Rightarrow> nat \<Rightarrow> string"

text \<open>A non-negative integer in a template literal prints in decimal.\<close>

definition digit :: "nat \<Rightarrow> char" where
  "digit d = ''0123456789'' ! d"

fun dec :: "nat \<Rightarrow> string" where
  "dec n = (if n < 10 then [digit n] else dec (n div 10) @ [digit (n mod 10)])"

declare dec.simps [simp del]

definition digit_value :: "char \<Rightarrow> nat" where
  "digit_value c = of_char c - 48"

definition undec :: "string \<Rightarrow> nat" where
  "undec ds = foldl (\<lambda>n c. 10 * n + digit_value c) 0 ds"

text \<open>\<open>String.prototype.startsWith\<close>, \<open>endsWith\<close>, \<open>includes\<close> and \<open>Array.prototype.join\<close>.\<close>

definition startsWith :: "string \<Rightarrow> string \<Rightarrow> bool" where
  "startsWith s p = (take (length p) s = p)"

definition endsWith :: "string \<Rightarrow> string \<Rightarrow> bool" where
  "endsWith s p = (length p \<le> length s \<and> drop (length s - length p) s = p)"

fun includes_str :: "string \<Rightarrow> string \<Rightarrow> bool" where
  "includes_str [] p = (p = [])"
| "includes_str (c # cs) p = (startsWith (c # cs) p \<or> includes_str cs p)"

fun join :: "string list \<Rightarrow> string \<Rightarrow> string" where
  "join [] sep = []"
| "join [x] sep = x"
| "join (x # y # ys) sep = x @ sep @ join (y # ys) sep"

text \<open>
  \<open>xs.slice(0, n)\<close> for an integer \<open>n\<close> (a \<open>limit\<close> is read as an integer): a negative
  end counts from the end.
\<close>

definition slice0 :: "'a list \<Rightarrow> int \<Rightarrow> 'a list" where
  "slice0 xs n = (if n < 0 then take (nat (int (length xs) + n)) xs else take (nat n) xs)"

text \<open>
  Object spread \<open>{...a, ...b}\<close> on objects with string keys: a key of \<open>b\<close> already in
  \<open>a\<close> keeps its place and takes the value of \<open>b\<close>, a new key goes to the end.
\<close>

fun assign :: "string \<Rightarrow> json \<Rightarrow> object \<Rightarrow> object" where
  "assign k v [] = [(k, v)]"
| "assign k v (p # ps) = (if fst p = k then (k, v) # ps else p # assign k v ps)"

definition spread :: "object \<Rightarrow> object \<Rightarrow> object" where
  "spread a b = foldl (\<lambda>acc p. assign (fst p) (snd p) acc) a b"

section \<open>GeoJSON, sources and layers\<close>

record geometry =
  g_type :: string
  g_coordinates :: "json option"

text \<open>
  A feature: its \<open>type\<close> is always \<open>'Feature'\<close>; \<open>f_other\<close> holds whatever further
  fields the engine sets on a feature it returns (\<open>id\<close>, \<open>state\<close>, ...).
\<close>

record feature =
  f_geometry :: "geometry option"
  f_properties :: "object option"
  f_layer :: "json option"
  f_source :: "string option"
  f_sourceLayer :: "string option"
  f_other :: object

datatype geojson = Feature feature | FeatureCollection "feature list"

datatype vector_config = Url string | Tiles "string list"

datatype source = GeoJSON geojson | Vector vector_config | OtherSource string

fun source_type :: "source \<Rightarrow> string" where
  "source_type (GeoJSON d) = ''geojson''"
| "source_type (Vector c) = ''vector''"
| "source_type (OtherSource t) = t"

record layer =
  l_id :: string
  l_type :: "string option"
  l_source :: "string option"
  l_sourceLayer :: "string option"
  l_paint :: object
  l_layout :: "object option"
  l_filter :: "json list option"
  l_minzoom :: "real option"
  l_maxzoom :: "real option"

record lngLat =
  lng :: real
  lat :: real

record lngLatBounds =
  sw :: lngLat
  ne :: lngLat

datatype query_geometry = PointGeometry real real | BoxGeometry "real \<times> real" "real \<times> real"

record rendered_options =
  ro_layers :: "string list option"
  ro_filter :: "json list option"

record source_options =
  so_sourceLayer :: "string option"
  so_filter :: "json list option"

datatype engine_call =
    FlyTo "real option \<times> real option" real real
  | SetCenter "real option \<times> real option"
  | SetZoom real
  | FitBounds lngLatBounds real
  | SetStyle string
  | QueryRenderedFeatures "query_geometry option" rendered_options
  | QuerySourceFeatures string source_options

section \<open>The map engine\<close>

text \<open>
  Modelled from the spec: the map engine (a Mapbox GL JS \<open>Map\<close>) and
  \<open>mapboxgl.LngLatBounds\<close> are supplied by the caller and are not part of the repository.
  The spec treats the engine as a capability interface (addSource, addLayer, removeSource,
  removeLayer, getStyle, querySourceFeatures, queryRenderedFeatures, setCenter, setZoom,
  flyTo, fitBounds, setStyle) "that a test double can implement in-memory". This is that
  double: a table of layers in style order, a table of sources in insertion order, the
  registered listeners, and a log of the camera, style and query calls received.

  What the engine renders, what its tiles hold and how it evaluates a filter expression
  are its own business: the fields \<open>scene\<close>, \<open>tileFeatures\<close> and \<open>evalFilter\<close> stand for
  them and are never inspected by the handlers.

  The double follows the Mapbox GL JS API where the handlers rely on it:
  \<^item> \<open>addSource\<close> throws when the id is taken;
  \<^item> \<open>addLayer\<close> and \<open>removeLayer\<close> report a taken or unknown id through an error
    event and change nothing; they do not throw;
  \<^item> \<open>removeSource\<close> throws when the id is unknown, and refuses (error event, nothing
    thrown, nothing removed) while a layer uses the source;
  \<^item> \<open>setStyle\<close> replaces the whole style, so every layer and source is gone;
  \<^item> \<open>querySourceFeatures\<close> on a GeoJSON source returns the features of its data.
\<close>

record engine =
  layers :: "layer list"
  sources :: "(string \<times> source) list"
  listeners :: "(string \<times> string) list"
  calls :: "engine_call list"
  scene :: "query_geometry option \<Rightarrow> rendered_options \<Rightarrow> feature list"
  tileFeatures :: "string \<Rightarrow> source_options \<Rightarrow> feature list"
  evalFilter :: "json list \<Rightarrow> feature \<Rightarrow> bool"

definition getLayer :: "engine \<Rightarrow> string \<Rightarrow> layer option" where
  "getLayer e i = find (\<lambda>l. l_id l = i) (layers e)"

definition getSource :: "engine \<Rightarrow> string \<Rightarrow> source option" where
  "getSource e i = map_of (sources e) i"

text \<open>
  \<open>getStyle().layers\<close> is \<open>layers e\<close>. \<open>Object.keys(getStyle().sources)\<close> lists each
  source id once, in insertion order (ids are names; a key that looks like an array index
  would come first in JavaScript).
\<close>

definition sourceIds :: "engine \<Rightarrow> string list" where
  "sourceIds e = remdups (map fst (sources e))"

definition addSource :: "string \<Rightarrow> source \<Rightarrow> engine \<Rightarrow> js_error + engine" where
  \<open>addSource i src e =
     (if getSource e i \<noteq> None then Inl (Error (''Source "'' @ i @ ''" already exists.''))
      else Inr (e\<lparr>sources := sources e @ [(i, src)]\<rparr>))\<close>

definition addLayer :: "layer \<Rightarrow> engine \<Rightarrow> engine" where
  "addLayer l e =
     (if getLayer e (l_id l) \<noteq> None then e else e\<lparr>layers := layers e @ [l]\<rparr>)"

definition removeLayer :: "string \<Rightarrow> engine \<Rightarrow> engine" where
  "removeLayer i e = e\<lparr>layers := filter (\<lambda>l. l_id l \<noteq> i) (layers e)\<rparr>"

definition sourceInUse :: "engine \<Rightarrow> string \<Rightarrow> bool" where
  "sourceInUse e i = (\<exists>l \<in> set (layers e). l_source l = Some i)"

definition removeSource :: "string \<Rightarrow> engine \<Rightarrow> js_error + engine" where
  "removeSource i e =
     (if getSource e i = None then Inl (Error ''There is no source with this ID'')
      else if sourceInUse e i then Inr e
      else Inr (e\<lparr>sources := filter (\<lambda>p. fst p \<noteq> i) (sources e)\<rparr>))"

definition on :: "string \<Rightarrow> string \<Rightarrow> engine \<Rightarrow> engine" where
  "on event i e = e\<lparr>listeners := listeners e @ [(event, i)]\<rparr>"

definition record_call :: "engine_call \<Rightarrow> engine \<Rightarrow> engine" where
  "record_call c e = e\<lparr>calls := calls e @ [c]\<rparr>"

definition flyTo :: "real option \<times> real option \<Rightarrow> real \<Rightarrow> real \<Rightarrow> engine \<Rightarrow> engine" where
  "flyTo center zoom duration e = record_call (FlyTo center zoom duration) e"

definition setCenter :: "real option \<times> real option \<Rightarrow> engine \<Rightarrow> engine" where
  "setCenter center e = record_call (SetCenter center) e"

definition setZoom :: "real \<Rightarrow> engine \<Rightarrow> engine" where
  "setZoom zoom e = record_call (SetZoom zoom) e"

definition fitBounds :: "lngLatBounds \<Rightarrow> real \<Rightarrow> engine \<Rightarrow> engine" where
  "fitBounds bounds padding e = record_call (FitBounds bounds padding) e"

definition setStyle :: "string \<Rightarrow> engine \<Rightarrow> engine" where
  "setStyle url e = record_call (SetStyle url) (e\<lparr>layers := [], sources := []\<rparr>)"

definition engineQueryRendered ::
  "query_geometry option \<Rightarrow> rendered_options \<Rightarrow> engine \<Rightarrow> feature list \<times> engine" where
  "engineQueryRendered g opts e = (scene e g opts, record_call (QueryRenderedFeatures g opts) e)"

text \<open>
  Modelled from the spec: the engine's \<open>querySourceFeatures\<close> "queries raw source data
  irrespective of current viewport/zoom". For a GeoJSON source the double answers with the
  features of the data the source was added with, narrowed by the filter when one is
  given; for any other source it answers with what its tiles hold.
\<close>

fun geojson_features :: "geojson \<Rightarrow> feature list" where
  "geojson_features (Feature f) = [f]"
| "geojson_features (FeatureCollection fs) = fs"

definition engineQuerySource ::
  "string \<Rightarrow> source_options \<Rightarrow> engine \<Rightarrow> feature list \<times> engine" where
  "engineQuerySource i opts e =
     (let found =
        (case getSource e i of
           Some (GeoJSON d) \<Rightarrow>
             (case so_filter opts of
                None \<Rightarrow> geojson_features d
              | Some f \<Rightarrow> filter (evalFilter e f) (geojson_features d))
         | _ \<Rightarrow> tileFeatures e i opts)
      in (found, record_call (QuerySourceFeatures i opts) e))"

text \<open>
  Modelled from the spec: \<open>mapboxgl.LngLatBounds\<close>, the library class with which
  \<open>fitMapToBounds\<close> "computes a bounding box across all coordinates", is not part of the
  repository. A position is an array \<open>[lng, lat]\<close> or \<open>[lng, lat, alt]\<close> of numbers with
  a latitude between -90 and 90; the library refuses anything else with an error.
  \<open>extend\<close> widens the box to hold one more position.
\<close>

definition invalidLngLat :: js_error where
  "invalidLngLat = Error ''Invalid LngLat object''"

definition invalidLatitude :: js_error where
  "invalidLatitude = Error ''Invalid LngLat latitude value: must be between -90 and 90''"

definition newLngLat :: "real \<Rightarrow> real \<Rightarrow> js_error + lngLat" where
  "newLngLat a b = (if b > 90 \<or> b < -90 then Inl invalidLatitude else Inr \<lparr>lng = a, lat = b\<rparr>)"

fun LngLat_convert :: "json \<Rightarrow> js_error + lngLat" where
  "LngLat_convert (JArr [JNum a, JNum b]) = newLngLat a b"
| "LngLat_convert (JArr [JNum a, JNum b, JNum c]) = newLngLat a b"
| "LngLat_convert other = Inl invalidLngLat"

definition newLngLatBounds :: "json \<Rightarrow> json \<Rightarrow> js_error + lngLatBounds" where
  "newLngLatBounds sw0 ne0 =
     (case LngLat_convert ne0 of
        Inl err \<Rightarrow> Inl err
      | Inr n \<Rightarrow>
          (case LngLat_convert sw0 of
             Inl err \<Rightarrow> Inl err
           | Inr s \<Rightarrow> Inr \<lparr>sw = s, ne = n\<rparr>))"

definition bounds_extend :: "lngLatBounds \<Rightarrow> json \<Rightarrow> js_error + lngLatBounds" where
  "bounds_extend b c =
     (case LngLat_convert c of
        Inl err \<Rightarrow> Inl err
      | Inr p \<Rightarrow>
          Inr \<lparr>sw = \<lparr>lng = min (lng p) (lng (sw b)), lat = min (lat p) (lat (sw b))\<rparr>,
               ne = \<lparr>lng = max (lng p) (lng (ne b)), lat = max (lat p) (lat (ne b))\<rparr>\<rparr>)"

section \<open>The instance, its arguments and its results\<close>

text \<open>
  A point of \<open>add_points_to_map\<close>. Its schema requires \<open>longitude\<close> and \<open>latitude\<close>; the
  handler reads them without a check and hands them to the engine.
\<close>

record point =
  p_longitude :: real
  p_latitude :: real
  p_title :: "string option"
  p_description :: "string option"
  p_color :: "string option"

record screen_point =
  pt_x :: "real option"
  pt_y :: "real option"

text \<open>
  The argument object of \<open>executeTool\<close>. A field that the object does not have
  (\<open>undefined\<close> after destructuring) is \<open>None\<close>. Each field has the type its tool's
  schema gives it; \<open>coordinates\<close> is an array of nested arrays of numbers, since the
  route and fit tools take positions and the polygon tool takes rings of positions.
\<close>

record args =
  arg_points :: "point list option"
  arg_layerName :: "string option"
  arg_coordinates :: "json list option"
  arg_color :: "string option"
  arg_width :: "real option"
  arg_longitude :: "real option"
  arg_latitude :: "real option"
  arg_zoom :: "real option"
  arg_animate :: "bool option"
  arg_padding :: "real option"
  arg_fillColor :: "string option"
  arg_fillOpacity :: "real option"
  arg_strokeColor :: "string option"
  arg_strokeWidth :: "real option"
  arg_layerNames :: "string list option"
  arg_style :: "string option"
  arg_tilesetUrl :: "string option"
  arg_sourceLayer :: "string option"
  arg_layerType :: "string option"
  arg_paint :: "object option"
  arg_layout :: "object option"
  arg_filter :: "json list option"
  arg_minzoom :: "real option"
  arg_maxzoom :: "real option"
  arg_point :: "screen_point option"
  arg_bbox :: "real list option"
  arg_layers :: "string list option"
  arg_limit :: "int option"
  arg_includeGeometry :: "bool option"
  arg_sourceId :: "string option"

text \<open>The argument object \<open>{}\<close>.\<close>

definition noArgs :: args where
  "noArgs = \<lparr>arg_points = None, arg_layerName = None, arg_coordinates = None,
     arg_color = None, arg_width = None, arg_longitude = None, arg_latitude = None,
     arg_zoom = None, arg_animate = None, arg_padding = None, arg_fillColor = None,
     arg_fillOpacity = None, arg_strokeColor = None, arg_strokeWidth = None,
     arg_layerNames = None, arg_style = None, arg_tilesetUrl = None,
     arg_sourceLayer = None, arg_layerType = None, arg_paint = None, arg_layout = None,
     arg_filter = None, arg_minzoom = None, arg_maxzoom = None, arg_point = None,
     arg_bbox = None, arg_layers = None, arg_limit = None, arg_includeGeometry = None,
     arg_sourceId = None\<rparr>"

record options =
  defaultPointColor :: string
  defaultRouteColor :: string
  defaultRouteWidth :: real
  defaultPolygonFillColor :: string
  defaultPolygonFillOpacity :: real
  defaultPolygonStrokeColor :: string
  defaultPolygonStrokeWidth :: real
  enablePopups :: bool
  enableHoverEffects :: bool

definition defaultOptions :: options where
  "defaultOptions = \<lparr>defaultPointColor = ''#FF0000'', defaultRouteColor = ''#0074D9'',
     defaultRouteWidth = 4, defaultPolygonFillColor = ''#FF0000'',
     defaultPolygonFillOpacity = 3 / 10, defaultPolygonStrokeColor = ''#FF0000'',
     defaultPolygonStrokeWidth = 2, enablePopups = True, enableHoverEffects = True\<rparr>"

record map_tools =
  mapInstance :: engine
  options :: options
  layerCounter :: nat

text \<open>
  The constructor: it throws without a map instance and starts the counter at 0. The
  caller's options are taken here already merged over \<open>defaultOptions\<close>.
\<close>

definition newMapboxMapTools :: "engine option \<Rightarrow> options \<Rightarrow> js_error + map_tools" where
  "newMapboxMapTools m opts =
     (case m of
        None \<Rightarrow> Inl (Error ''Mapbox GL JS map instance is required'')
      | Some e \<Rightarrow> Inr \<lparr>mapInstance = e, options = opts, layerCounter = 0\<rparr>)"

record content_item =
  c_type :: string
  c_text :: string

record envelope =
  content :: "content_item list"
  isError :: bool
  layerId :: "string option"
  sourceId :: "string option"
  data :: "feature list option"

definition textResult :: "string \<Rightarrow> envelope" where
  "textResult t = \<lparr>content = [\<lparr>c_type = ''text'', c_text = t\<rparr>], isError = False,
     layerId = None, sourceId = None, data = None\<rparr>"

type_synonym 'a outcome = "(js_error + 'a) \<times> map_tools"

text \<open>\<open>a || b\<close> on an optional string: \<open>undefined\<close> and the empty string are falsy.\<close>

fun or_else :: "string option \<Rightarrow> string \<Rightarrow> string" where
  "or_else (Some (c # cs)) b = c # cs"
| "or_else a b = b"

text \<open>An optional string inside a template literal.\<close>

fun shown :: "string option \<Rightarrow> string" where
  "shown None = ''undefined''"
| "shown (Some v) = v"

fun shownNumber :: "runtime \<Rightarrow> real option \<Rightarrow> string" where
  "shownNumber rt None = ''undefined''"
| "shownNumber rt (Some v) = numberToString rt v"

text \<open>\<open>!v\<close> on an optional string.\<close>

fun falsy :: "string option \<Rightarrow> bool" where
  "falsy None = True"
| "falsy (Some v) = (v = [])"

text \<open>
  \<open>`${layerName}-${++this.layerCounter}`\<close>, with the counter already advanced. The
  counter is a JavaScript number that starts at 0 and only ever has 1 added to it; such
  a number is an exact integer (a double counts exactly up to \<open>2^53\<close>) and is modelled as
  a natural number.
\<close>

definition layerHandle :: "string \<Rightarrow> nat \<Rightarrow> string" where
  "layerHandle layerName counter = layerName @ ''-'' @ dec counter"

definition tick :: "map_tools \<Rightarrow> map_tools" where
  "tick s = s\<lparr>layerCounter := layerCounter s + 1\<rparr>"

section \<open>The handlers\<close>

text \<open>
  Each handler is preceded by the object literals it builds: the GeoJSON data, the layer
  descriptions and the result envelope. A read of a property of \<open>undefined\<close> throws a
  \<open>TypeError\<close>; its message is the one V8 gives.
\<close>

definition cannotRead :: "string \<Rightarrow> js_error" where
  "cannotRead property =
     TypeError (''Cannot read properties of undefined (reading '' @ [CHR 0x27] @ property
                @ [CHR 0x27] @ '')'')"

definition plainLayer :: "string \<Rightarrow> string \<Rightarrow> string \<Rightarrow> object \<Rightarrow> layer" where
  "plainLayer i t src p = \<lparr>l_id = i, l_type = Some t, l_source = Some src,
     l_sourceLayer = None, l_paint = p, l_layout = None, l_filter = None,
     l_minzoom = None, l_maxzoom = None\<rparr>"

definition geometryFeature :: "string \<Rightarrow> json option \<Rightarrow> feature" where
  "geometryFeature t cs = \<lparr>f_geometry = Some \<lparr>g_type = t, g_coordinates = cs\<rparr>,
     f_properties = None, f_layer = None, f_source = None, f_sourceLayer = None,
     f_other = []\<rparr>"

subsection \<open>addPointsToMap\<close>

definition pointFeature :: "options \<Rightarrow> nat \<Rightarrow> point \<Rightarrow> feature" where
  "pointFeature opts index point =
     (geometryFeature ''Point'' (Some (JArr [JNum (p_longitude point), JNum (p_latitude point)])))
       \<lparr>f_properties := Some
          [(''title'', JStr (or_else (p_title point) (''Point '' @ dec (index + 1)))),
           (''description'', JStr (or_else (p_description point) [])),
           (''color'', JStr (or_else (p_color point) (defaultPointColor opts)))]\<rparr>"

definition pointsGeoJSON :: "options \<Rightarrow> point list \<Rightarrow> geojson" where
  "pointsGeoJSON opts points =
     FeatureCollection (map (\<lambda>(index, point). pointFeature opts index point)
                          (enumerate 0 points))"

definition pointsLayer :: "string \<Rightarrow> layer" where
  "pointsLayer i = plainLayer i ''circle'' i
     [(''circle-radius'', JNum 8),
      (''circle-color'', JArr [JStr ''get'', JStr ''color'']),
      (''circle-stroke-width'', JNum 2),
      (''circle-stroke-color'', JStr ''#ffffff'')]"

definition pointsResult :: "nat \<Rightarrow> string \<Rightarrow> envelope" where
  \<open>pointsResult n i =
     (textResult (''Added '' @ dec n @ '' points to map layer "'' @ i @ ''"''))
       \<lparr>layerId := Some i\<rparr>\<close>

definition addPointsToMap :: "args \<Rightarrow> map_tools \<Rightarrow> envelope outcome" where
  "addPointsToMap args s =
     (let layerName = (case arg_layerName args of None \<Rightarrow> ''points-layer'' | Some n \<Rightarrow> n);
          s1 = tick s;
          uniqueLayerName = layerHandle layerName (layerCounter s1)
      in case arg_points args of
           None \<Rightarrow> (Inl (cannotRead ''map''), s1)
         | Some points \<Rightarrow>
             (case addSource uniqueLayerName (GeoJSON (pointsGeoJSON (options s1) points))
                     (mapInstance s1) of
                Inl err \<Rightarrow> (Inl err, s1)
              | Inr e1 \<Rightarrow>
                  (let e2 = addLayer (pointsLayer uniqueLayerName) e1;
                       e3 = (if enablePopups (options s1)
                             then on ''click'' uniqueLayerName e2 else e2);
                       e4 = (if enableHoverEffects (options s1)
                             then on ''mouseleave'' uniqueLayerName
                                    (on ''mouseenter'' uniqueLayerName e3)
                             else e3)
                   in (Inr (pointsResult (length points) uniqueLayerName),
                       s1\<lparr>mapInstance := e4\<rparr>))))"

subsection \<open>addRouteToMap\<close>

definition routeLayer :: "string \<Rightarrow> string \<Rightarrow> real \<Rightarrow> layer" where
  "routeLayer i color width = plainLayer i ''line'' i
     [(''line-color'', JStr color), (''line-width'', JNum width),
      (''line-opacity'', JNum (8 / 10))]"

definition routeResult :: "nat \<Rightarrow> string \<Rightarrow> envelope" where
  \<open>routeResult n i =
     (textResult (''Added route with '' @ dec n @ '' points to map layer "'' @ i @ ''"''))
       \<lparr>layerId := Some i\<rparr>\<close>

definition addRouteToMap :: "args \<Rightarrow> map_tools \<Rightarrow> envelope outcome" where
  "addRouteToMap args s =
     (let coordinates = arg_coordinates args;
          color = (case arg_color args of None \<Rightarrow> defaultRouteColor (options s) | Some c \<Rightarrow> c);
          width = (case arg_width args of None \<Rightarrow> defaultRouteWidth (options s) | Some w \<Rightarrow> w);
          layerName = (case arg_layerName args of None \<Rightarrow> ''route-layer'' | Some n \<Rightarrow> n);
          s1 = tick s;
          uniqueLayerName = layerHandle layerName (layerCounter s1);
          geojson = Feature (geometryFeature ''LineString'' (map_option JArr coordinates))
      in case addSource uniqueLayerName (GeoJSON geojson) (mapInstance s1) of
           Inl err \<Rightarrow> (Inl err, s1)
         | Inr e1 \<Rightarrow>
             (let s2 = s1\<lparr>mapInstance := addLayer (routeLayer uniqueLayerName color width) e1\<rparr>
              in case coordinates of
                   None \<Rightarrow> (Inl (cannotRead ''length''), s2)
                 | Some cs \<Rightarrow> (Inr (routeResult (length cs) uniqueLayerName), s2)))"

subsection \<open>panMapToLocation\<close>

definition panResult :: "runtime \<Rightarrow> real \<Rightarrow> real \<Rightarrow> real \<Rightarrow> envelope" where
  "panResult rt latitude longitude zoom =
     textResult (''Map centered on '' @ toFixed rt latitude 4 @ '', ''
                 @ toFixed rt longitude 4 @ '' at zoom level '' @ numberToString rt zoom)"

definition panMapToLocation :: "runtime \<Rightarrow> args \<Rightarrow> map_tools \<Rightarrow> envelope outcome" where
  "panMapToLocation rt args s =
     (let longitude = arg_longitude args;
          latitude = arg_latitude args;
          zoom = (case arg_zoom args of None \<Rightarrow> 12 | Some z \<Rightarrow> z);
          animate = (case arg_animate args of None \<Rightarrow> True | Some b \<Rightarrow> b);
          e1 = (if animate then flyTo (longitude, latitude) zoom 2000 (mapInstance s)
                else setZoom zoom (setCenter (longitude, latitude) (mapInstance s)));
          s1 = s\<lparr>mapInstance := e1\<rparr>
      in case latitude of
           None \<Rightarrow> (Inl (cannotRead ''toFixed''), s1)
         | Some la \<Rightarrow>
             (case longitude of
                None \<Rightarrow> (Inl (cannotRead ''toFixed''), s1)
              | Some lo \<Rightarrow> (Inr (panResult rt la lo zoom), s1)))"

subsection \<open>fitMapToBounds\<close>

text \<open>\<open>coordinates.reduce((bounds, coord) => bounds.extend(coord), initial)\<close>.\<close>

fun reduce_extend :: "json list \<Rightarrow> lngLatBounds \<Rightarrow> js_error + lngLatBounds" where
  "reduce_extend [] b = Inr b"
| "reduce_extend (c # cs) b =
     (case bounds_extend b c of Inl err \<Rightarrow> Inl err | Inr b' \<Rightarrow> reduce_extend cs b')"

definition fitResult :: "nat \<Rightarrow> envelope" where
  "fitResult n = textResult (''Map view adjusted to fit '' @ dec n @ '' coordinates'')"

definition fitMapToBounds :: "args \<Rightarrow> map_tools \<Rightarrow> envelope outcome" where
  "fitMapToBounds args s =
     (let padding = (case arg_padding args of None \<Rightarrow> 50 | Some p \<Rightarrow> p)
      in case arg_coordinates args of
           None \<Rightarrow> (Inl (cannotRead ''length''), s)
         | Some coordinates \<Rightarrow>
             (if length coordinates = 0 then (Inl (Error ''No coordinates provided''), s)
              else
                (case newLngLatBounds (hd coordinates) (hd coordinates) of
                   Inl err \<Rightarrow> (Inl err, s)
                 | Inr initial \<Rightarrow>
                     (case reduce_extend coordinates initial of
                        Inl err \<Rightarrow> (Inl err, s)
                      | Inr bounds \<Rightarrow>
                          (Inr (fitResult (length coordinates)),
                           s\<lparr>mapInstance := fitBounds bounds padding (mapInstance s)\<rparr>)))))"

subsection \<open>addPolygonToMap\<close>

definition fillLayer :: "string \<Rightarrow> string \<Rightarrow> real \<Rightarrow> layer" where
  "fillLayer i fillColor fillOpacity = plainLayer (i @ ''-fill'') ''fill'' i
     [(''fill-color'', JStr fillColor), (''fill-opacity'', JNum fillOpacity)]"

definition strokeLayer :: "string \<Rightarrow> string \<Rightarrow> real \<Rightarrow> layer" where
  "strokeLayer i strokeColor strokeWidth = plainLayer (i @ ''-stroke'') ''line'' i
     [(''line-color'', JStr strokeColor), (''line-width'', JNum strokeWidth)]"

definition polygonResult :: "string \<Rightarrow> envelope" where
  \<open>polygonResult i =
     (textResult (''Added polygon to map layer "'' @ i @ ''"''))\<lparr>layerId := Some i\<rparr>\<close>

definition addPolygonToMap :: "args \<Rightarrow> map_tools \<Rightarrow> envelope outcome" where
  "addPolygonToMap args s =
     (let coordinates = arg_coordinates args;
          fillColor = (case arg_fillColor args of
                         None \<Rightarrow> defaultPolygonFillColor (options s) | Some c \<Rightarrow> c);
          fillOpacity = (case arg_fillOpacity args of
                           None \<Rightarrow> defaultPolygonFillOpacity (options s) | Some v \<Rightarrow> v);
          strokeColor = (case arg_strokeColor args of
                           None \<Rightarrow> defaultPolygonStrokeColor (options s) | Some c \<Rightarrow> c);
          strokeWidth = (case arg_strokeWidth args of
                           None \<Rightarrow> defaultPolygonStrokeWidth (options s) | Some v \<Rightarrow> v);
          layerName = (case arg_layerName args of None \<Rightarrow> ''polygon-layer'' | Some n \<Rightarrow> n);
          s1 = tick s;
          uniqueLayerName = layerHandle layerName (layerCounter s1);
          geojson = Feature (geometryFeature ''Polygon'' (map_option JArr coordinates))
      in case addSource uniqueLayerName (GeoJSON geojson) (mapInstance s1) of
           Inl err \<Rightarrow> (Inl err, s1)
         | Inr e1 \<Rightarrow>
             (let e2 = addLayer (fillLayer uniqueLayerName fillColor fillOpacity) e1;
                  e3 = addLayer (strokeLayer uniqueLayerName strokeColor strokeWidth) e2
              in (Inr (polygonResult uniqueLayerName), s1\<lparr>mapInstance := e3\<rparr>)))"

subsection \<open>clearMapLayers\<close>

text \<open>
  The ownership test of the "remove all" branch, shared with \<open>getCustomLayerIds\<close>: an id
  that contains \<open>-layer-\<close> or ends with \<open>-fill\<close> or \<open>-stroke\<close>.
\<close>

definition isCustomLayerId :: "string \<Rightarrow> bool" where
  "isCustomLayerId i =
     (includes_str i ''-layer-'' \<or> endsWith i ''-fill'' \<or> endsWith i ''-stroke'')"

text \<open>
  \<open>forEach\<close> with a callback that may throw: the loop stops at the first exception and
  keeps the state reached.
\<close>

fun forEach :: "('a \<Rightarrow> 's \<Rightarrow> js_error option \<times> 's) \<Rightarrow> 'a list \<Rightarrow> 's \<Rightarrow> js_error option \<times> 's" where
  "forEach f [] s = (None, s)"
| "forEach f (x # xs) s =
     (case f x s of
        (Some err, s') \<Rightarrow> (Some err, s')
      | (None, s') \<Rightarrow> forEach f xs s')"

definition callRemoveSource :: "string \<Rightarrow> engine \<Rightarrow> js_error option \<times> engine" where
  "callRemoveSource i e =
     (case removeSource i e of Inl err \<Rightarrow> (Some err, e) | Inr e' \<Rightarrow> (None, e'))"

text \<open>
  The callbacks of the loops. The state of a layer loop is the engine and
  \<open>removedCount\<close>.
\<close>

definition removeIfPresent :: "string \<Rightarrow> engine \<times> nat \<Rightarrow> js_error option \<times> engine \<times> nat" where
  "removeIfPresent i st =
     (case st of (e, removedCount) \<Rightarrow>
        if getLayer e i \<noteq> None then (None, removeLayer i e, removedCount + 1)
        else (None, e, removedCount))"

definition removeNamed :: "string \<Rightarrow> engine \<times> nat \<Rightarrow> js_error option \<times> engine \<times> nat" where
  "removeNamed layerName st =
     (case removeIfPresent layerName st of
        (r, e, removedCount) \<Rightarrow>
          if getSource e layerName \<noteq> None
          then (case callRemoveSource layerName e of (r', e') \<Rightarrow> (r', e', removedCount))
          else (None, e, removedCount))"

definition removeLayerSource :: "string \<Rightarrow> engine \<Rightarrow> js_error option \<times> engine" where
  "removeLayerSource i e =
     (if includes_str i ''-layer-'' then callRemoveSource i e else (None, e))"

text \<open>\<open>new Set(remainingLayers.map(l => l.source).filter(Boolean))\<close>, as a list.\<close>

definition usedSources :: "engine \<Rightarrow> string list" where
  "usedSources e = filter (\<lambda>i. i \<noteq> []) (List.map_filter l_source (layers e))"

definition sweepOrphan :: "string list \<Rightarrow> string \<Rightarrow> engine \<Rightarrow> js_error option \<times> engine" where
  "sweepOrphan used i e =
     (if endsWith i ''-vector-source'' \<and> i \<notin> set used
      then (if getSource e i \<noteq> None then callRemoveSource i e else (None, e))
      else (None, e))"

definition removedResult :: "nat \<Rightarrow> envelope" where
  "removedResult removedCount =
     textResult (''Removed '' @ dec removedCount @ '' layers from the map'')"

definition clearMapLayers :: "args \<Rightarrow> map_tools \<Rightarrow> envelope outcome" where
  "clearMapLayers args s =
     (let layerNames = (case arg_layerNames args of None \<Rightarrow> [] | Some ns \<Rightarrow> ns)
      in if length layerNames = 0 then
           (let customLayers = filter (\<lambda>l. isCustomLayerId (l_id l)) (layers (mapInstance s))
            in case forEach (\<lambda>l. removeIfPresent (l_id l)) customLayers (mapInstance s, 0) of
                 (Some err, e1, removedCount) \<Rightarrow> (Inl err, s\<lparr>mapInstance := e1\<rparr>)
               | (None, e1, removedCount) \<Rightarrow>
                   (let srcs = sourceIds e1
                    in case forEach removeLayerSource srcs e1 of
                         (Some err, e2) \<Rightarrow> (Inl err, s\<lparr>mapInstance := e2\<rparr>)
                       | (None, e2) \<Rightarrow>
                           (case forEach (sweepOrphan (usedSources e2)) srcs e2 of
                              (Some err, e3) \<Rightarrow> (Inl err, s\<lparr>mapInstance := e3\<rparr>)
                            | (None, e3) \<Rightarrow>
                                (Inr (removedResult removedCount), s\<lparr>mapInstance := e3\<rparr>))))
         else
           (case forEach removeNamed layerNames (mapInstance s, 0) of
              (Some err, e1, removedCount) \<Rightarrow> (Inl err, s\<lparr>mapInstance := e1\<rparr>)
            | (None, e1, removedCount) \<Rightarrow>
                (case forEach (sweepOrphan (usedSources e1)) (sourceIds e1) e1 of
                   (Some err, e2) \<Rightarrow> (Inl err, s\<lparr>mapInstance := e2\<rparr>)
                 | (None, e2) \<Rightarrow> (Inr (removedResult removedCount), s\<lparr>mapInstance := e2\<rparr>))))"

definition getCustomLayerIds :: "map_tools \<Rightarrow> string list" where
  "getCustomLayerIds s = filter isCustomLayerId (map l_id (layers (mapInstance s)))"

definition destroy :: "map_tools \<Rightarrow> js_error option \<times> map_tools" where
  "destroy s =
     (case clearMapLayers noArgs s of
        (Inl err, s') \<Rightarrow> (Some err, s')
      | (Inr r, s') \<Rightarrow> (None, s'))"

subsection \<open>setMapStyle\<close>

definition setMapStyle :: "args \<Rightarrow> map_tools \<Rightarrow> envelope outcome" where
  "setMapStyle args s =
     (let style = arg_style args;
          styleUrl = ''mapbox://styles/mapbox/'' @ shown style
      in (Inr (textResult (''Changed map style to '' @ shown style)),
          s\<lparr>mapInstance := setStyle styleUrl (mapInstance s)\<rparr>))"

subsection \<open>addVectorTilesetLayer\<close>

text \<open>
  \<open>generateSourceId\<close>. The first \<open>replace\<close> strips a leading \<open>mapbox://\<close>, \<open>http://\<close> or
  \<open>https://\<close>; the second turns every character outside the class
  \<open>[a-zA-Z0-9-_.]\<close> into a dash.
\<close>

definition acceptedScheme :: "string \<Rightarrow> bool" where
  "acceptedScheme u =
     (startsWith u ''mapbox://'' \<or> startsWith u ''http://'' \<or> startsWith u ''https://'')"

definition stripScheme :: "string \<Rightarrow> string" where
  "stripScheme u =
     (if startsWith u ''mapbox://'' then drop 9 u
      else if startsWith u ''https://'' then drop 8 u
      else if startsWith u ''http://'' then drop 7 u
      else u)"

definition alphanumeric :: "char \<Rightarrow> bool" where
  "alphanumeric c =
     (c \<in> set ''abcdefghijklmnopqrstuvwxyzABCDEFGHIJKLMNOPQRSTUVWXYZ0123456789'')"

definition keptChar :: "char \<Rightarrow> bool" where
  "keptChar c = (alphanumeric c \<or> c \<in> set ''-_.'')"

definition generateSourceId :: "string \<Rightarrow> string" where
  "generateSourceId tilesetUrl =
     (let cleanUrl = map (\<lambda>c. if keptChar c then c else CHR ''-'') (stripScheme tilesetUrl)
      in cleanUrl @ ''-vector-source'')"

definition defaultPaintByType :: "string option \<Rightarrow> object" where
  "defaultPaintByType layerType =
     (if layerType = Some ''line'' then
        [(''line-color'', JStr ''#0074D9''), (''line-width'', JNum 2),
         (''line-opacity'', JNum (8 / 10))]
      else if layerType = Some ''fill'' then
        [(''fill-color'', JStr ''#FF0000''), (''fill-opacity'', JNum (3 / 10))]
      else if layerType = Some ''circle'' then
        [(''circle-radius'', JNum 6), (''circle-color'', JStr ''#FF0000''),
         (''circle-opacity'', JNum (8 / 10))]
      else if layerType = Some ''fill-extrusion'' then
        [(''fill-extrusion-color'', JStr ''#0074D9''), (''fill-extrusion-height'', JNum 10),
         (''fill-extrusion-opacity'', JNum (8 / 10))]
      else if layerType = Some ''symbol'' then
        [(''text-color'', JStr ''#000000''), (''text-halo-color'', JStr ''#FFFFFF''),
         (''text-halo-width'', JNum 2)]
      else [])"

definition invalidTilesetUrl :: js_error where
  \<open>invalidTilesetUrl =
     Error ''Invalid tileset URL format. Must start with "mapbox://" or "http(s)://"''\<close>

definition vectorSource :: "string \<Rightarrow> source" where
  "vectorSource tilesetUrl =
     Vector (if startsWith tilesetUrl ''mapbox://'' then Url tilesetUrl else Tiles [tilesetUrl])"

definition layerConfig :: "args \<Rightarrow> string \<Rightarrow> string \<Rightarrow> layer" where
  "layerConfig args uniqueLayerName srcId =
     (let paint = (case arg_paint args of None \<Rightarrow> [] | Some p \<Rightarrow> p);
          layout = (case arg_layout args of None \<Rightarrow> [] | Some l \<Rightarrow> l);
          finalPaint = spread (defaultPaintByType (arg_layerType args)) paint
      in \<lparr>l_id = uniqueLayerName, l_type = arg_layerType args, l_source = Some srcId,
          l_sourceLayer = arg_sourceLayer args, l_paint = finalPaint,
          l_layout = (if length layout > 0 then Some layout else None),
          l_filter = arg_filter args, l_minzoom = arg_minzoom args,
          l_maxzoom = arg_maxzoom args\<rparr>)"

definition vectorResult :: "string \<Rightarrow> string \<Rightarrow> string option \<Rightarrow> envelope" where
  \<open>vectorResult uniqueLayerName srcId sourceLayer =
     (textResult (''Added vector tileset layer "'' @ uniqueLayerName @ ''" from source "''
                  @ srcId @ ''" (source layer: "'' @ shown sourceLayer @ ''")''))
       \<lparr>layerId := Some uniqueLayerName, sourceId := Some srcId\<rparr>\<close>

definition addVectorTilesetLayer :: "args \<Rightarrow> map_tools \<Rightarrow> envelope outcome" where
  "addVectorTilesetLayer args s =
     (let layerName = (case arg_layerName args of
                         None \<Rightarrow> ''vector-tileset-layer'' | Some n \<Rightarrow> n)
      in case arg_tilesetUrl args of
           None \<Rightarrow> (Inl (cannotRead ''match''), s)
         | Some tilesetUrl \<Rightarrow>
             (if \<not> acceptedScheme tilesetUrl then (Inl invalidTilesetUrl, s)
              else
                (let s1 = tick s;
                     uniqueLayerName = layerHandle layerName (layerCounter s1);
                     sourceId = generateSourceId tilesetUrl
                 in case (if getSource (mapInstance s1) sourceId = None
                          then addSource sourceId (vectorSource tilesetUrl) (mapInstance s1)
                          else Inr (mapInstance s1)) of
                      Inl err \<Rightarrow> (Inl err, s1)
                    | Inr e1 \<Rightarrow>
                        (Inr (vectorResult uniqueLayerName sourceId (arg_sourceLayer args)),
                         s1\<lparr>mapInstance :=
                               addLayer (layerConfig args uniqueLayerName sourceId) e1\<rparr>))))"

subsection \<open>queryRenderedFeatures\<close>

definition stripRendered :: "feature \<Rightarrow> feature" where
  "stripRendered f = \<lparr>f_geometry = None, f_properties = f_properties f, f_layer = f_layer f,
     f_source = f_source f, f_sourceLayer = f_sourceLayer f, f_other = []\<rparr>"

definition bothGiven :: js_error where
  "bothGiven = Error ''Cannot specify both point and bbox parameters. Use one or the other.''"

definition buildQueryGeometry ::
  "screen_point option \<Rightarrow> real list option \<Rightarrow> js_error + query_geometry option" where
  "buildQueryGeometry point bbox =
     (case point of
        Some p \<Rightarrow>
          (case (pt_x p, pt_y p) of
             (Some x, Some y) \<Rightarrow> Inr (Some (PointGeometry x y))
           | _ \<Rightarrow> Inl (Error ''Invalid point coordinates. Expected {x: number, y: number}.''))
      | None \<Rightarrow>
          (case bbox of
             Some b \<Rightarrow>
               (if length b \<noteq> 4
                then Inl (Error ''Invalid bbox format. Expected [x1, y1, x2, y2].'')
                else Inr (Some (BoxGeometry (b ! 0, b ! 1) (b ! 2, b ! 3))))
           | None \<Rightarrow> Inr None))"

definition renderedOptions :: "args \<Rightarrow> rendered_options" where
  "renderedOptions args =
     \<lparr>ro_layers = (case arg_layers args of Some (l # ls) \<Rightarrow> Some (l # ls) | _ \<Rightarrow> None),
      ro_filter = arg_filter args\<rparr>"

definition queryDescription :: "runtime \<Rightarrow> screen_point option \<Rightarrow> real list option \<Rightarrow> string" where
  "queryDescription rt point bbox =
     (case point of
        Some p \<Rightarrow> ''at point ('' @ shownNumber rt (pt_x p) @ '', ''
                    @ shownNumber rt (pt_y p) @ '')''
      | None \<Rightarrow>
          (case bbox of
             Some b \<Rightarrow> ''in bbox ['' @ join (map (numberToString rt) b) '', '' @ '']''
           | None \<Rightarrow> ''in viewport''))"

definition renderedResult :: "runtime \<Rightarrow> args \<Rightarrow> feature list \<Rightarrow> envelope" where
  "renderedResult rt args features =
     (textResult (''Found '' @ dec (length features) @ '' rendered feature''
                  @ (if length features \<noteq> 1 then ''s'' else [])
                  @ '' '' @ queryDescription rt (arg_point args) (arg_bbox args)
                  @ (case arg_layers args of
                       Some ls \<Rightarrow> '' in layers: '' @ join ls '', ''
                     | None \<Rightarrow> [])))
       \<lparr>data := Some features\<rparr>"

definition queryRenderedFeatures :: "runtime \<Rightarrow> args \<Rightarrow> map_tools \<Rightarrow> envelope outcome" where
  "queryRenderedFeatures rt args s =
     (let point = arg_point args;
          bbox = arg_bbox args;
          limit = (case arg_limit args of None \<Rightarrow> 100 | Some n \<Rightarrow> n);
          includeGeometry = (case arg_includeGeometry args of None \<Rightarrow> True | Some b \<Rightarrow> b)
      in if point \<noteq> None \<and> bbox \<noteq> None then (Inl bothGiven, s)
         else
           (case buildQueryGeometry point bbox of
              Inl err \<Rightarrow> (Inl err, s)
            | Inr queryGeometry \<Rightarrow>
                (let queried = engineQueryRendered queryGeometry (renderedOptions args)
                                 (mapInstance s);
                     limited = slice0 (fst queried) limit;
                     features = (if \<not> includeGeometry then map stripRendered limited
                                 else limited)
                 in (Inr (renderedResult rt args features),
                     s\<lparr>mapInstance := snd queried\<rparr>))))"

subsection \<open>querySourceFeatures\<close>

definition stripSourced :: "feature \<Rightarrow> feature" where
  "stripSourced f = \<lparr>f_geometry = None, f_properties = f_properties f, f_layer = None,
     f_source = f_source f, f_sourceLayer = f_sourceLayer f, f_other = []\<rparr>"

definition sourceNotFound :: "string option \<Rightarrow> string list \<Rightarrow> js_error" where
  \<open>sourceNotFound srcId availableSources =
     Error (''Source "'' @ shown srcId @ ''" not found. Available sources: ''
            @ (if join availableSources '', '' = [] then ''none''
               else join availableSources '', '')
            @ ''. Make sure you're using the correct source ID from layer creation.'')\<close>

definition sourceOptions :: "args \<Rightarrow> source_options" where
  "sourceOptions args =
     \<lparr>so_sourceLayer = (if falsy (arg_sourceLayer args) then None else arg_sourceLayer args),
      so_filter = arg_filter args\<rparr>"

definition sourcedResult :: "string \<Rightarrow> string option \<Rightarrow> feature list \<Rightarrow> envelope" where
  \<open>sourcedResult i sourceLayer features =
     (textResult (''Found '' @ dec (length features) @ '' feature''
                  @ (if length features \<noteq> 1 then ''s'' else [])
                  @ '' from source "'' @ i @ ''"''
                  @ (if falsy sourceLayer then []
                     else '' (layer: '' @ shown sourceLayer @ '')'')))
       \<lparr>data := Some features\<rparr>\<close>

definition querySourceFeatures :: "args \<Rightarrow> map_tools \<Rightarrow> envelope outcome" where
  "querySourceFeatures args s =
     (let sourceId = arg_sourceId args;
          sourceLayer = arg_sourceLayer args;
          limit = (case arg_limit args of None \<Rightarrow> 1000 | Some n \<Rightarrow> n);
          includeGeometry = (case arg_includeGeometry args of None \<Rightarrow> True | Some b \<Rightarrow> b);
          notFound = sourceNotFound sourceId (sourceIds (mapInstance s))
      in case sourceId of
           None \<Rightarrow> (Inl notFound, s)
         | Some i \<Rightarrow>
             (case getSource (mapInstance s) i of
                None \<Rightarrow> (Inl notFound, s)
              | Some src \<Rightarrow>
                  (if source_type src = ''vector'' \<and> falsy sourceLayer then
                     (Inl (Error ''sourceLayer parameter is required for vector tile sources''), s)
                   else
                     (let queried = engineQuerySource i (sourceOptions args) (mapInstance s);
                          limited = slice0 (fst queried) limit;
                          features = (if \<not> includeGeometry then map stripSourced limited
                                      else limited)
                      in (Inr (sourcedResult i sourceLayer features),
                          s\<lparr>mapInstance := snd queried\<rparr>)))))"

section \<open>The dispatcher\<close>


text \<open>The \<open>switch\<close> inside the \<open>try\<close> block.\<close>

definition dispatch :: "runtime \<Rightarrow> string \<Rightarrow> args \<Rightarrow> map_tools \<Rightarrow> envelope outcome" where
  "dispatch rt toolName args s =
     (if toolName = ''add_points_to_map'' then addPointsToMap args s
      else if toolName = ''add_route_to_map'' then addRouteToMap args s
      else if toolName = ''pan_map_to_location'' then panMapToLocation rt args s
      else if toolName = ''fit_map_to_bounds'' then fitMapToBounds args s
      else if toolName = ''add_polygon_to_map'' then addPolygonToMap args s
      else if toolName = ''clear_map_layers'' then clearMapLayers args s
      else if toolName = ''set_map_style'' then setMapStyle args s
      else if toolName = ''add_vector_tileset_layer'' then addVectorTilesetLayer args s
      else if toolName = ''query_rendered_features'' then queryRenderedFeatures rt args s
      else if toolName = ''query_source_features'' then querySourceFeatures args s
      else (Inl (Error (''Unknown tool: '' @ toolName)), s))"

definition errorEnvelope :: "js_error \<Rightarrow> envelope" where
  "errorEnvelope err = \<lparr>content = [\<lparr>c_type = ''text'', c_text = ''Error: '' @ message err\<rparr>],
     isError = True, layerId = None, sourceId = None, data = None\<rparr>"

text \<open>
  \<open>executeTool\<close>: the \<open>catch\<close> turns whatever the \<open>switch\<close> threw into an error
  envelope. The function is \<open>async\<close>; its value here is the value its promise resolves
  to. Its result type has no exception: every path returns an envelope. The two console
  calls only log and are left out.
\<close>

definition executeTool :: "runtime \<Rightarrow> string \<Rightarrow> args \<Rightarrow> map_tools \<Rightarrow> envelope \<times> map_tools" where
  "executeTool rt toolName args s =
     (case dispatch rt toolName args s of
        (Inl err, s') \<Rightarrow> (errorEnvelope err, s')
      | (Inr result, s') \<Rightarrow> (result, s'))"

text \<open>A session: a sequence of calls on one instance, and the envelopes they return.\<close>

fun run :: "runtime \<Rightarrow> (string \<times> args) list \<Rightarrow> map_tools \<Rightarrow> envelope list \<times> map_tools" where
  "run rt [] s = ([], s)"
| "run rt (c # cs) s =
     (case executeTool rt (fst c) (snd c) s of
        (r, s1) \<Rightarrow> (case run rt cs s1 of (rs, s2) \<Rightarrow> (r # rs, s2)))"

text \<open>The layer handles a session handed out, in order.\<close>

definition handles :: "envelope list \<Rightarrow> string list" where
  "handles rs = List.map_filter layerId rs"

text \<open>The number after the last dash of a handle.\<close>

definition handleNumber :: "string \<Rightarrow> nat" where
  "handleNumber h = undec (rev (takeWhile (\<lambda>c. c \<noteq> CHR ''-'') (rev h)))"

section \<open>Example inputs\<close>

text \<open>
  An engine with an empty style, and a fresh instance on it. The examples below evaluate
  the handlers on these.
\<close>

definition emptyEngine :: engine where
  "emptyEngine = \<lparr>layers = [], sources = [], listeners = [], calls = [],
     scene = (\<lambda>g opts. []), tileFeatures = (\<lambda>i opts. []), evalFilter = (\<lambda>f x. True)\<rparr>"

definition freshTools :: map_tools where
  "freshTools = \<lparr>mapInstance = emptyEngine, options = defaultOptions, layerCounter = 0\<rparr>"

text \<open>A runtime for the examples; none of them prints a number.\<close>

definition sampleRuntime :: runtime where
  "sampleRuntime = \<lparr>numberToString = (\<lambda>x. ''?''), toFixed = (\<lambda>x d. ''?'')\<rparr>"

definition newYork :: point where
  "newYork = \<lparr>p_longitude = - 74, p_latitude = 40, p_title = Some ''New York City'',
     p_description = None, p_color = None\<rparr>"

definition citiesArgs :: args where
  "citiesArgs = noArgs\<lparr>arg_points := Some [newYork], arg_layerName := Some ''cities''\<rparr>"

text \<open>An engine that already has a source under the id the next route would get.\<close>

definition occupiedTools :: map_tools where
  "occupiedTools = freshTools\<lparr>mapInstance :=
     emptyEngine\<lparr>sources := [(''route-layer-1'', OtherSource ''raster'')]\<rparr>\<rparr>"

definition squareArgs :: args where
  "squareArgs = noArgs\<lparr>arg_coordinates :=
     Some [JArr [JArr [JNum 0, JNum 0], JArr [JNum 1, JNum 0], JArr [JNum 1, JNum 1],
                 JArr [JNum 0, JNum 0]]]\<rparr>"

text \<open>A style that already has a layer of its own, named \<open>water-fill\<close>.\<close>

definition styledEngine :: engine where
  "styledEngine = emptyEngine\<lparr>
     layers := [plainLayer ''water-fill'' ''fill'' ''composite'' []],
     sources := [(''composite'', Vector (Url ''mapbox://mapbox.mapbox-streets-v8''))]\<rparr>"

text \<open>
  The source id as the specification words it, for comparison with \<open>generateSourceId\<close>:
  the scheme prefix stripped, every non-alphanumeric character replaced, and
  \<open>-vector-source\<close> appended.
\<close>

definition statedSourceId :: "string \<Rightarrow> string" where
  "statedSourceId tilesetUrl =
     map (\<lambda>c. if alphanumeric c then c else CHR ''-'') (stripScheme tilesetUrl)
       @ ''-vector-source''"

section \<open>Decimal numerals and layer handles\<close>

lemma digit_cases:
  assumes "d < 10"
  shows "d = 0 \<or> d = 1 \<or> d = 2 \<or> d = 3 \<or> d = 4 \<or> d = 5 \<or> d = 6 \<or> d = 7 \<or> d = 8 \<or> d = (9::nat)"
  using assms by arith

lemma digit_not_dash: "d < 10 \<Longrightarrow> digit d \<noteq> CHR ''-''"
  using digit_cases [of d] by (auto simp: digit_def)

lemma digit_value_digit: "d < 10 \<Longrightarrow> digit_value (digit d) = d"
  using digit_cases [of d] by (auto simp: digit_def digit_value_def)

lemma dec_no_dash: "c \<in> set (dec n) \<Longrightarrow> c \<noteq> CHR ''-''"
proof (induction n arbitrary: c rule: dec.induct)
  case (1 n)
  show ?case
  proof (cases "n < 10")
    case True
    with "1.prems" show ?thesis
      by (simp add: dec.simps [of n] digit_not_dash)
  next
    case False
    with "1.prems" have "c \<in> set (dec (n div 10)) \<or> c = digit (n mod 10)"
      by (auto simp: dec.simps [of n])
    then show ?thesis
      using "1.IH" [OF False] digit_not_dash [of "n mod 10"] by auto
  qed
qed

lemma undec_snoc: "undec (ds @ [c]) = 10 * undec ds + digit_value c"
  by (simp add: undec_def)

lemma undec_dec: "undec (dec n) = n"
proof (induction n rule: dec.induct)
  case (1 n)
  show ?case
  proof (cases "n < 10")
    case True
    then show ?thesis
      by (simp add: dec.simps [of n] undec_def digit_value_digit)
  next
    case False
    then have "undec (dec n) = 10 * undec (dec (n div 10)) + digit_value (digit (n mod 10))"
      by (simp add: dec.simps [of n] undec_snoc)
    also have "\<dots> = 10 * (n div 10) + n mod 10"
      using "1.IH" [OF False] by (simp add: digit_value_digit)
    finally show ?thesis by simp
  qed
qed

lemma handleNumber_layerHandle: "handleNumber (layerHandle name n) = n"
proof -
  have "takeWhile (\<lambda>c. c \<noteq> CHR ''-'') (rev (dec n) @ CHR ''-'' # rev name) = rev (dec n)"
    using dec_no_dash [of _ n] by (subst takeWhile_append2) auto
  then show ?thesis
    by (simp add: handleNumber_def layerHandle_def undec_dec)
qed

lemma startsWith_append: "startsWith (p @ s) p"
  by (simp add: startsWith_def)


section \<open>The layer counter\<close>

lemma addPointsToMap_counter: "layerCounter (snd (addPointsToMap a s)) = Suc (layerCounter s)"
  by (simp add: addPointsToMap_def Let_def tick_def split: option.splits sum.splits)

lemma addRouteToMap_counter: "layerCounter (snd (addRouteToMap a s)) = Suc (layerCounter s)"
  by (simp add: addRouteToMap_def Let_def tick_def split: option.splits sum.splits)

lemma addPolygonToMap_counter: "layerCounter (snd (addPolygonToMap a s)) = Suc (layerCounter s)"
  by (simp add: addPolygonToMap_def Let_def tick_def split: option.splits sum.splits)

lemma addVectorTilesetLayer_counter:
  "layerCounter (snd (addVectorTilesetLayer a s)) =
     (case arg_tilesetUrl a of
        None \<Rightarrow> layerCounter s
      | Some u \<Rightarrow> if acceptedScheme u then Suc (layerCounter s) else layerCounter s)"
  by (simp add: addVectorTilesetLayer_def Let_def tick_def split: option.splits sum.splits)

lemma panMapToLocation_counter: "layerCounter (snd (panMapToLocation rt a s)) = layerCounter s"
  by (simp add: panMapToLocation_def Let_def split: option.splits)

lemma fitMapToBounds_counter: "layerCounter (snd (fitMapToBounds a s)) = layerCounter s"
  by (simp add: fitMapToBounds_def Let_def split: option.splits sum.splits)

lemma setMapStyle_counter: "layerCounter (snd (setMapStyle a s)) = layerCounter s"
  by (simp add: setMapStyle_def Let_def)

lemma queryRenderedFeatures_counter:
  "layerCounter (snd (queryRenderedFeatures rt a s)) = layerCounter s"
  by (simp add: queryRenderedFeatures_def Let_def split: option.splits sum.splits prod.splits)

lemma querySourceFeatures_counter: "layerCounter (snd (querySourceFeatures a s)) = layerCounter s"
  by (simp add: querySourceFeatures_def Let_def split: option.splits sum.splits)

lemma clearMapLayers_counter: "layerCounter (snd (clearMapLayers a s)) = layerCounter s"
  by (simp add: clearMapLayers_def Let_def split: option.splits prod.splits)

lemmas handler_counter =
  addPointsToMap_counter addRouteToMap_counter addPolygonToMap_counter
  addVectorTilesetLayer_counter panMapToLocation_counter fitMapToBounds_counter
  setMapStyle_counter queryRenderedFeatures_counter querySourceFeatures_counter
  clearMapLayers_counter

lemma dispatch_counter_mono: "layerCounter s \<le> layerCounter (snd (dispatch rt t a s))"
  by (simp add: dispatch_def handler_counter split: option.splits)

text \<open>The handle a creating handler returns is minted from the advanced counter.\<close>

lemma result_layerId:
  "layerId (textResult t) = None"
  "layerId (pointsResult n i) = Some i"
  "layerId (routeResult n i) = Some i"
  "layerId (polygonResult i) = Some i"
  "layerId (vectorResult i src sl) = Some i"
  "layerId (panResult rt la lo z) = None"
  "layerId (fitResult n) = None"
  "layerId (removedResult n) = None"
  "layerId (renderedResult rt a fs) = None"
  "layerId (sourcedResult i sl fs) = None"
  by (simp_all add: textResult_def pointsResult_def routeResult_def polygonResult_def
        vectorResult_def panResult_def fitResult_def removedResult_def renderedResult_def
        sourcedResult_def)



lemma addPolygonToMap_layerId:
  "fst (addPolygonToMap a s) = Inr r \<Longrightarrow>
   layerId r = Some (layerHandle (case arg_layerName a of None \<Rightarrow> ''polygon-layer'' | Some n \<Rightarrow> n)
                       (Suc (layerCounter s)))"
  unfolding addPolygonToMap_def Let_def tick_def
  by (auto simp: result_layerId split: option.splits sum.splits)











lemma executeTool_state: "snd (executeTool rt t a s) = snd (dispatch rt t a s)"
  by (cases "dispatch rt t a s") (simp add: executeTool_def split: sum.splits)

lemma executeTool_counter_mono: "layerCounter s \<le> layerCounter (snd (executeTool rt t a s))"
  by (simp add: executeTool_state dispatch_counter_mono)












text \<open>
  C4, as stated, fails: \<open>addVectorTilesetLayer\<close> checks the URL scheme before it touches
  the counter, so a call rejected for its URL consumes no tick.
\<close>

theorem vector_invalid_url_consumes_no_tick:
  "fst (addVectorTilesetLayer (noArgs\<lparr>arg_tilesetUrl := Some ''ftp://tiles.example/x''\<rparr>) freshTools)
     = Inl invalidTilesetUrl
   \<and> layerCounter (snd (addVectorTilesetLayer
        (noArgs\<lparr>arg_tilesetUrl := Some ''ftp://tiles.example/x''\<rparr>) freshTools))
     = layerCounter freshTools"
  by (simp add: addVectorTilesetLayer_def noArgs_def acceptedScheme_def startsWith_def)

text \<open>
  C4, amended. Every invocation of add points, add route and add polygon advances the
  counter by exactly one, whatever the arguments and whether or not the call fails later
  (a missing field, the engine rejecting the source). \<open>addVectorTilesetLayer\<close> advances
  it by exactly one when the tileset URL starts with \<open>mapbox://\<close>, \<open>http://\<close> or
  \<open>https://\<close>, also when the call fails later, and leaves it unchanged when the URL is
  missing or has another scheme. No call of \<open>executeTool\<close> ever lowers the counter.
\<close>

theorem counter_ticks:
  "layerCounter (snd (addPointsToMap a s)) = layerCounter s + 1
   \<and> layerCounter (snd (addRouteToMap a s)) = layerCounter s + 1
   \<and> layerCounter (snd (addPolygonToMap a s)) = layerCounter s + 1
   \<and> layerCounter (snd (addVectorTilesetLayer a s)) =
       (if \<exists>u. arg_tilesetUrl a = Some u \<and> acceptedScheme u
        then layerCounter s + 1 else layerCounter s)
   \<and> layerCounter s \<le> layerCounter (snd (executeTool rt t a s))"
  by (auto simp: addPointsToMap_counter addRouteToMap_counter addPolygonToMap_counter
        addVectorTilesetLayer_counter executeTool_counter_mono split: option.splits)

theorem counter_ticks_witness:
  "(\<exists>err. fst (addPointsToMap noArgs freshTools) = Inl err)
   \<and> layerCounter (snd (addPointsToMap noArgs freshTools)) = 1
   \<and> layerCounter (snd (addRouteToMap noArgs freshTools)) = 1
   \<and> layerCounter (snd (addPolygonToMap noArgs freshTools)) = 1
   \<and> layerCounter (snd (addVectorTilesetLayer noArgs freshTools)) = 0
   \<and> layerCounter (snd (addVectorTilesetLayer
         (noArgs\<lparr>arg_tilesetUrl := Some ''mapbox://mapbox.mapbox-traffic-v1''\<rparr>) freshTools)) = 1"
proof -
  have failed: "\<exists>err. fst (addPointsToMap noArgs freshTools) = Inl err"
    by (simp add: addPointsToMap_def Let_def noArgs_def)
  have fresh: "layerCounter freshTools = 0"
    by (simp add: freshTools_def)
  have none: "arg_tilesetUrl noArgs = None"
    by (simp add: noArgs_def)
  have accepted: "acceptedScheme ''mapbox://mapbox.mapbox-traffic-v1''"
    by (simp add: acceptedScheme_def startsWith_def)
  show ?thesis
    using failed fresh none accepted
      counter_ticks [of noArgs freshTools sampleRuntime "''add_points_to_map''"]
      counter_ticks [of "noArgs\<lparr>arg_tilesetUrl := Some ''mapbox://mapbox.mapbox-traffic-v1''\<rparr>"
        freshTools sampleRuntime "''add_vector_tileset_layer''"]
    by simp
qed

section \<open>The dispatcher boundary\<close>

lemma result_isError:
  "isError (textResult t) = False"
  "isError (pointsResult n i) = False"
  "isError (routeResult n i) = False"
  "isError (polygonResult i) = False"
  "isError (vectorResult i src sl) = False"
  "isError (panResult rt la lo z) = False"
  "isError (fitResult n) = False"
  "isError (removedResult n) = False"
  "isError (renderedResult rt a fs) = False"
  "isError (sourcedResult i sl fs) = False"
  by (simp_all add: textResult_def pointsResult_def routeResult_def polygonResult_def
        vectorResult_def panResult_def fitResult_def removedResult_def renderedResult_def
        sourcedResult_def)

lemma handler_success_not_error:
  "fst (addPointsToMap a s) = Inr r \<Longrightarrow> \<not> isError r"
  "fst (addRouteToMap a s) = Inr r \<Longrightarrow> \<not> isError r"
  "fst (panMapToLocation rt a s) = Inr r \<Longrightarrow> \<not> isError r"
  "fst (fitMapToBounds a s) = Inr r \<Longrightarrow> \<not> isError r"
  "fst (addPolygonToMap a s) = Inr r \<Longrightarrow> \<not> isError r"
  "fst (clearMapLayers a s) = Inr r \<Longrightarrow> \<not> isError r"
  "fst (setMapStyle a s) = Inr r \<Longrightarrow> \<not> isError r"
  "fst (addVectorTilesetLayer a s) = Inr r \<Longrightarrow> \<not> isError r"
  "fst (queryRenderedFeatures rt a s) = Inr r \<Longrightarrow> \<not> isError r"
  "fst (querySourceFeatures a s) = Inr r \<Longrightarrow> \<not> isError r"
  unfolding addPointsToMap_def addRouteToMap_def panMapToLocation_def fitMapToBounds_def
    addPolygonToMap_def clearMapLayers_def setMapStyle_def addVectorTilesetLayer_def
    queryRenderedFeatures_def querySourceFeatures_def Let_def
  by (auto simp: result_isError split: option.splits sum.splits prod.splits if_splits)

lemma dispatch_success_not_error: "fst (dispatch rt t a s) = Inr r \<Longrightarrow> \<not> isError r"
  unfolding dispatch_def
  by (simp split: if_splits add: handler_success_not_error)




section \<open>Validation in the handlers\<close>

lemma engineQueryRendered_recorded:
  "calls (snd (engineQueryRendered g opts e)) = calls e @ [QueryRenderedFeatures g opts]"
  by (simp add: engineQueryRendered_def record_call_def)

text \<open>
  C6. When the argument object has both \<open>point\<close> and \<open>bbox\<close>, \<open>queryRenderedFeatures\<close>
  throws "Cannot specify both point and bbox parameters. Use one or the other."; through
  \<open>executeTool\<close> this is an error envelope with \<open>isError: true\<close>. The engine is left
  exactly as it was: its call log has no new entry, while every call of the engine's
  \<open>queryRenderedFeatures\<close> adds one, so the engine was not queried.
\<close>

theorem point_and_bbox_rejected:
  "arg_point args = Some p \<and> arg_bbox args = Some b \<longrightarrow>
     queryRenderedFeatures rt args s =
       (Inl (Error ''Cannot specify both point and bbox parameters. Use one or the other.''), s)
     \<and> executeTool rt ''query_rendered_features'' args s =
       (\<lparr>content = [\<lparr>c_type = ''text'', c_text =
           ''Error: Cannot specify both point and bbox parameters. Use one or the other.''\<rparr>],
         isError = True, layerId = None, sourceId = None, data = None\<rparr>, s)
     \<and> calls (mapInstance (snd (executeTool rt ''query_rendered_features'' args s)))
         = calls (mapInstance s)
     \<and> calls (snd (engineQueryRendered g opts (mapInstance s)))
         \<noteq> calls (mapInstance s)"
proof (intro impI)
  assume both: "arg_point args = Some p \<and> arg_bbox args = Some b"
  then have thrown: "queryRenderedFeatures rt args s = (Inl bothGiven, s)"
    by (simp add: queryRenderedFeatures_def Let_def)
  then have "dispatch rt ''query_rendered_features'' args s = (Inl bothGiven, s)"
    by (simp add: dispatch_def)
  then have caught: "executeTool rt ''query_rendered_features'' args s = (errorEnvelope bothGiven, s)"
    by (simp add: executeTool_def)
  show "queryRenderedFeatures rt args s =
       (Inl (Error ''Cannot specify both point and bbox parameters. Use one or the other.''), s)
     \<and> executeTool rt ''query_rendered_features'' args s =
       (\<lparr>content = [\<lparr>c_type = ''text'', c_text =
           ''Error: Cannot specify both point and bbox parameters. Use one or the other.''\<rparr>],
         isError = True, layerId = None, sourceId = None, data = None\<rparr>, s)
     \<and> calls (mapInstance (snd (executeTool rt ''query_rendered_features'' args s)))
         = calls (mapInstance s)
     \<and> calls (snd (engineQueryRendered g opts (mapInstance s)))
         \<noteq> calls (mapInstance s)"
    using thrown caught
    by (simp add: bothGiven_def errorEnvelope_def engineQueryRendered_recorded)
qed

theorem point_and_bbox_rejected_witness:
  "arg_point (noArgs\<lparr>arg_point := Some \<lparr>pt_x = Some 0, pt_y = Some 0\<rparr>,
                    arg_bbox := Some [0, 0, 1, 1]\<rparr>) = Some \<lparr>pt_x = Some 0, pt_y = Some 0\<rparr>
   \<and> arg_bbox (noArgs\<lparr>arg_point := Some \<lparr>pt_x = Some 0, pt_y = Some 0\<rparr>,
                    arg_bbox := Some [0, 0, 1, 1]\<rparr>) = Some [0, 0, 1, 1]
   \<and> executeTool sampleRuntime ''query_rendered_features''
         (noArgs\<lparr>arg_point := Some \<lparr>pt_x = Some 0, pt_y = Some 0\<rparr>,
                 arg_bbox := Some [0, 0, 1, 1]\<rparr>) freshTools =
       (\<lparr>content = [\<lparr>c_type = ''text'', c_text =
           ''Error: Cannot specify both point and bbox parameters. Use one or the other.''\<rparr>],
         isError = True, layerId = None, sourceId = None, data = None\<rparr>, freshTools)"
proof -
  let ?args = "noArgs\<lparr>arg_point := Some \<lparr>pt_x = Some 0, pt_y = Some 0\<rparr>,
                      arg_bbox := Some [0, 0, 1, 1]\<rparr>"
  have given: "arg_point ?args = Some \<lparr>pt_x = Some 0, pt_y = Some 0\<rparr>
               \<and> arg_bbox ?args = Some [0, 0, 1, 1]"
    by (simp add: noArgs_def)
  show ?thesis
    using given
      point_and_bbox_rejected [where args = ?args and p = "\<lparr>pt_x = Some 0, pt_y = Some 0\<rparr>"
        and b = "[0, 0, 1, 1]" and rt = sampleRuntime and s = freshTools]
    by blast
qed

lemma reduce_extend_fold:
  "map LngLat_convert cs = map Inr ps \<Longrightarrow>
   reduce_extend cs b =
     Inr \<lparr>sw = \<lparr>lng = fold min (map lng ps) (lng (sw b)), lat = fold min (map lat ps) (lat (sw b))\<rparr>,
          ne = \<lparr>lng = fold max (map lng ps) (lng (ne b)), lat = fold max (map lat ps) (lat (ne b))\<rparr>\<rparr>"
proof (induction cs arbitrary: ps b)
  case Nil
  then show ?case by simp
next
  case (Cons c cs)
  then obtain p ps' where ps: "ps = p # ps'" and c: "LngLat_convert c = Inr p"
    and rest: "map LngLat_convert cs = map Inr ps'"
    by (cases ps) auto
  show ?case
    using Cons.IH [OF rest] c by (simp add: ps bounds_extend_def)
qed

lemma fold_min_Min:
  fixes x :: real
  shows "fold min xs x = Min (insert x (set xs))"
  using Min.set_eq_fold [of x xs] by simp

lemma fold_max_Max:
  fixes x :: real
  shows "fold max xs x = Max (insert x (set xs))"
  using Max.set_eq_fold [of x xs] by simp

lemma reduce_extend_rejects:
  "\<nexists>ps. map LngLat_convert cs = map Inr ps \<Longrightarrow> \<exists>err. reduce_extend cs b = Inl err"
proof (induction cs arbitrary: b)
  case Nil
  then show ?case by simp
next
  case (Cons c cs)
  show ?case
  proof (cases "LngLat_convert c")
    case (Inl err)
    then show ?thesis by (simp add: bounds_extend_def)
  next
    case (Inr p)
    have "\<nexists>ps. map LngLat_convert cs = map Inr ps"
    proof
      assume "\<exists>ps. map LngLat_convert cs = map Inr ps"
      then obtain ps where "map LngLat_convert cs = map Inr ps" ..
      then have "map LngLat_convert (c # cs) = map Inr (p # ps)"
        using Inr by simp
      with Cons.prems show False by blast
    qed
    then show ?thesis
      using Cons.IH Inr by (simp add: bounds_extend_def)
  qed
qed

text \<open>
  C7, as stated, fails for non-empty arrays: the handler builds the box with
  \<open>LngLatBounds\<close>, which refuses a latitude outside -90..90. On the single coordinate
  \<open>[0, 100]\<close> the call ends in an error envelope and the engine receives no call at
  all, so \<open>fitBounds\<close> is not called.
\<close>

theorem fit_bounds_refuses_latitude:
  "fitMapToBounds (noArgs\<lparr>arg_coordinates := Some [JArr [JNum 0, JNum 100]]\<rparr>) freshTools
     = (Inl (Error ''Invalid LngLat latitude value: must be between -90 and 90''), freshTools)
   \<and> isError (fst (executeTool sampleRuntime ''fit_map_to_bounds''
        (noArgs\<lparr>arg_coordinates := Some [JArr [JNum 0, JNum 100]]\<rparr>) freshTools))
   \<and> calls (mapInstance (snd (executeTool sampleRuntime ''fit_map_to_bounds''
        (noArgs\<lparr>arg_coordinates := Some [JArr [JNum 0, JNum 100]]\<rparr>) freshTools))) = []"
  by (simp add: executeTool_def dispatch_def fitMapToBounds_def noArgs_def newLngLatBounds_def
        newLngLat_def invalidLatitude_def errorEnvelope_def freshTools_def emptyEngine_def)

text \<open>
  C7, amended. \<open>fitMapToBounds\<close> with an empty coordinates array throws "No coordinates
  provided": \<open>executeTool\<close> returns an error envelope and the engine is untouched, so no
  camera call was issued. The handler itself rejects no non-empty array. When every
  coordinate is a position (\<open>ps\<close> are the positions the coordinates denote) the call
  succeeds and issues exactly one engine call, \<open>fitBounds\<close>, with the box whose
  south-west corner is the least longitude and latitude over all the coordinates and
  whose north-east corner is the greatest, and with the given padding, 50 when none is
  given. When \<open>LngLatBounds\<close> refuses one of the coordinates, its error is thrown and
  the engine is untouched.
\<close>

theorem fit_bounds_behaviour:
  "(arg_coordinates args = Some [] \<longrightarrow>
      fitMapToBounds args s = (Inl (Error ''No coordinates provided''), s)
      \<and> isError (fst (executeTool rt ''fit_map_to_bounds'' args s))
      \<and> snd (executeTool rt ''fit_map_to_bounds'' args s) = s)
   \<and> (arg_coordinates args = Some cs \<and> cs \<noteq> [] \<and> map LngLat_convert cs = map Inr ps \<longrightarrow>
      fitMapToBounds args s =
        (Inr (fitResult (length cs)),
         s\<lparr>mapInstance := (mapInstance s)\<lparr>calls := calls (mapInstance s) @
            [FitBounds
               \<lparr>sw = \<lparr>lng = Min (lng ` set ps), lat = Min (lat ` set ps)\<rparr>,
                ne = \<lparr>lng = Max (lng ` set ps), lat = Max (lat ` set ps)\<rparr>\<rparr>
               (case arg_padding args of None \<Rightarrow> 50 | Some padding \<Rightarrow> padding)]\<rparr>\<rparr>)
      \<and> \<not> isError (fst (executeTool rt ''fit_map_to_bounds'' args s)))
   \<and> (arg_coordinates args = Some cs \<and> cs \<noteq> [] \<and> (\<nexists>ps. map LngLat_convert cs = map Inr ps)
        \<longrightarrow> (\<exists>err. fitMapToBounds args s = (Inl err, s)))"
proof (intro conjI impI)
  assume empty: "arg_coordinates args = Some []"
  then show thrown: "fitMapToBounds args s = (Inl (Error ''No coordinates provided''), s)"
    by (simp add: fitMapToBounds_def)
  then have caught: "executeTool rt ''fit_map_to_bounds'' args s
      = (errorEnvelope (Error ''No coordinates provided''), s)"
    by (simp add: executeTool_def dispatch_def)
  show "isError (fst (executeTool rt ''fit_map_to_bounds'' args s))"
    by (simp add: caught errorEnvelope_def)
  show "snd (executeTool rt ''fit_map_to_bounds'' args s) = s"
    by (simp add: caught)
next
  assume given: "arg_coordinates args = Some cs \<and> cs \<noteq> [] \<and> map LngLat_convert cs = map Inr ps"
  then obtain c cs' where cs: "cs = c # cs'" by (cases cs) auto
  with given obtain p ps' where ps: "ps = p # ps'" and c: "LngLat_convert c = Inr p"
    by (cases ps) auto
  have initial: "newLngLatBounds (hd cs) (hd cs) = Inr \<lparr>sw = p, ne = p\<rparr>"
    by (simp add: cs c newLngLatBounds_def)
  have mins: "fold min (map lng ps) (lng p) = Min (lng ` set ps)"
    "fold min (map lat ps) (lat p) = Min (lat ` set ps)"
    by (simp_all add: fold_min_Min ps)
  have maxs: "fold max (map lng ps) (lng p) = Max (lng ` set ps)"
    "fold max (map lat ps) (lat p) = Max (lat ` set ps)"
    by (simp_all add: fold_max_Max ps)
  have reduced: "reduce_extend cs \<lparr>sw = p, ne = p\<rparr> =
      Inr \<lparr>sw = \<lparr>lng = Min (lng ` set ps), lat = Min (lat ` set ps)\<rparr>,
           ne = \<lparr>lng = Max (lng ` set ps), lat = Max (lat ` set ps)\<rparr>\<rparr>"
    using reduce_extend_fold [of cs ps "\<lparr>sw = p, ne = p\<rparr>"] given mins maxs by simp
  show fitted: "fitMapToBounds args s =
        (Inr (fitResult (length cs)),
         s\<lparr>mapInstance := (mapInstance s)\<lparr>calls := calls (mapInstance s) @
            [FitBounds
               \<lparr>sw = \<lparr>lng = Min (lng ` set ps), lat = Min (lat ` set ps)\<rparr>,
                ne = \<lparr>lng = Max (lng ` set ps), lat = Max (lat ` set ps)\<rparr>\<rparr>
               (case arg_padding args of None \<Rightarrow> 50 | Some padding \<Rightarrow> padding)]\<rparr>\<rparr>)"
    using given initial reduced
    by (simp add: fitMapToBounds_def fitBounds_def record_call_def)
  then have "executeTool rt ''fit_map_to_bounds'' args s
      = (fitResult (length cs), snd (fitMapToBounds args s))"
    by (simp add: executeTool_def dispatch_def)
  then show "\<not> isError (fst (executeTool rt ''fit_map_to_bounds'' args s))"
    by (simp add: result_isError)
next
  assume refused: "arg_coordinates args = Some cs \<and> cs \<noteq> []
    \<and> (\<nexists>ps. map LngLat_convert cs = map Inr ps)"
  show "\<exists>err. fitMapToBounds args s = (Inl err, s)"
  proof (cases "newLngLatBounds (hd cs) (hd cs)")
    case (Inl err)
    then show ?thesis using refused by (simp add: fitMapToBounds_def)
  next
    case (Inr initial)
    obtain err where "reduce_extend cs initial = Inl err"
      using reduce_extend_rejects [of cs initial] refused by blast
    then show ?thesis using refused Inr by (simp add: fitMapToBounds_def)
  qed
qed

theorem fit_bounds_behaviour_witness:
  "fitMapToBounds (noArgs\<lparr>arg_coordinates := Some []\<rparr>) freshTools
     = (Inl (Error ''No coordinates provided''), freshTools)
   \<and> map LngLat_convert [JArr [JNum 3, JNum 4], JArr [JNum (- 1), JNum 50]]
       = map Inr [\<lparr>lng = 3, lat = 4\<rparr>, \<lparr>lng = - 1, lat = 50\<rparr>]
   \<and> calls (mapInstance (snd (fitMapToBounds
        (noArgs\<lparr>arg_coordinates := Some [JArr [JNum 3, JNum 4], JArr [JNum (- 1), JNum 50]]\<rparr>)
        freshTools)))
     = [FitBounds \<lparr>sw = \<lparr>lng = - 1, lat = 4\<rparr>, ne = \<lparr>lng = 3, lat = 50\<rparr>\<rparr> 50]
   \<and> (\<nexists>ps. map LngLat_convert [JArr [JNum 0, JNum 100]] = map Inr ps)
   \<and> (\<exists>err. fitMapToBounds (noArgs\<lparr>arg_coordinates := Some [JArr [JNum 0, JNum 100]]\<rparr>)
               freshTools = (Inl err, freshTools))"
proof -
  let ?cs = "[JArr [JNum 3, JNum 4], JArr [JNum (- 1), JNum 50]]"
  let ?ps = "[\<lparr>lng = 3, lat = 4\<rparr>, \<lparr>lng = - 1, lat = 50\<rparr>]"
  let ?bad = "[JArr [JNum 0, JNum 100]]"
  have positions: "map LngLat_convert ?cs = map Inr ?ps"
    by (simp add: newLngLat_def)
  have empty: "arg_coordinates (noArgs\<lparr>arg_coordinates := Some []\<rparr>) = Some []"
    by (simp add: noArgs_def)
  have given: "arg_coordinates (noArgs\<lparr>arg_coordinates := Some ?cs\<rparr>) = Some ?cs"
    "arg_padding (noArgs\<lparr>arg_coordinates := Some ?cs\<rparr>) = None"
    "arg_coordinates (noArgs\<lparr>arg_coordinates := Some ?bad\<rparr>) = Some ?bad"
    by (simp_all add: noArgs_def)
  have no_calls: "calls (mapInstance freshTools) = []"
    by (simp add: freshTools_def emptyEngine_def)
  have refused: "\<nexists>ps. map LngLat_convert ?bad = map Inr ps"
  proof
    assume "\<exists>ps. map LngLat_convert ?bad = map Inr ps"
    then obtain ps where "map LngLat_convert ?bad = map Inr ps" ..
    then show False by (cases ps) (auto simp: newLngLat_def)
  qed
  show ?thesis
    using positions empty given no_calls refused
      fit_bounds_behaviour [where args = "noArgs\<lparr>arg_coordinates := Some []\<rparr>"
        and s = freshTools and rt = sampleRuntime]
      fit_bounds_behaviour [where args = "noArgs\<lparr>arg_coordinates := Some ?cs\<rparr>"
        and cs = ?cs and ps = ?ps and s = freshTools and rt = sampleRuntime]
      fit_bounds_behaviour [where args = "noArgs\<lparr>arg_coordinates := Some ?bad\<rparr>"
        and cs = ?bad and s = freshTools and rt = sampleRuntime]
    by simp
qed

section \<open>Routes and polygons\<close>

lemma getSource_append:
  "getSource (e\<lparr>sources := sources e @ [(i, src)]\<rparr>) j =
     (case getSource e j of Some found \<Rightarrow> Some found | None \<Rightarrow> if j = i then Some src else None)"
  by (simp add: getSource_def map_add_def split: option.splits)

lemma addSource_fresh:
  "getSource e i = None \<Longrightarrow> addSource i src e = Inr (e\<lparr>sources := sources e @ [(i, src)]\<rparr>)"
  by (simp add: addSource_def)

lemma addSource_taken:
  "getSource e i = Some found \<Longrightarrow> \<exists>err. addSource i src e = Inl err"
  by (simp add: addSource_def)

lemma addLayer_sources: "sources (addLayer l e) = sources e"
  by (simp add: addLayer_def)

lemma getSource_addLayer: "getSource (addLayer l e) i = getSource e i"
  by (simp add: getSource_def addLayer_sources)

lemma getLayer_addLayer_same: "getLayer (addLayer l e) (l_id l) \<noteq> None"
  by (auto simp: addLayer_def getLayer_def find_None_iff)

lemma find_snoc:
  "find P (xs @ [y]) = (case find P xs of None \<Rightarrow> (if P y then Some y else None) | Some x \<Rightarrow> Some x)"
  by (induction xs) auto

lemma addLayer_fresh:
  "getLayer e (l_id l) = None \<Longrightarrow> layers (addLayer l e) = layers e @ [l]"
  by (simp add: addLayer_def)

text \<open>
  C10. \<open>addRouteToMap\<close> has no check on the number of coordinates. For every coordinates
  array, the empty one and a single pair included, it advances the counter and then
  fails exactly when the engine rejects the new source because its id is taken. Otherwise
  it returns a success envelope carrying the new handle, the engine has the LineString
  source under that handle, holding the coordinates as given, and a layer under the same
  id. Unless a layer with that id was already there, that layer is the one just added:
  of type \<open>line\<close>, drawn from the new source, painted with the given (or default) colour
  and width and opacity 0.8.
\<close>

theorem route_never_validates_count:
  "arg_coordinates args = Some cs \<longrightarrow>
     layerCounter (snd (addRouteToMap args s)) = layerCounter s + 1
     \<and> ((\<exists>err. fst (addRouteToMap args s) = Inl err) \<longleftrightarrow>
          getSource (mapInstance s)
            (layerHandle (case arg_layerName args of None \<Rightarrow> ''route-layer'' | Some n \<Rightarrow> n)
               (layerCounter s + 1)) \<noteq> None)
     \<and> (\<forall>r. fst (addRouteToMap args s) = Inr r \<longrightarrow>
          \<not> isError r
          \<and> layerId r = Some (layerHandle
               (case arg_layerName args of None \<Rightarrow> ''route-layer'' | Some n \<Rightarrow> n)
               (layerCounter s + 1))
          \<and> (\<forall>h. layerId r = Some h \<longrightarrow>
                sources (mapInstance (snd (addRouteToMap args s)))
                  = sources (mapInstance s) @
                    [(h, GeoJSON (Feature
                       \<lparr>f_geometry = Some \<lparr>g_type = ''LineString'',
                                             g_coordinates = Some (JArr cs)\<rparr>,
                        f_properties = None, f_layer = None, f_source = None,
                        f_sourceLayer = None, f_other = []\<rparr>))]
                \<and> getSource (mapInstance (snd (addRouteToMap args s))) h
                  = Some (GeoJSON (Feature
                       \<lparr>f_geometry = Some \<lparr>g_type = ''LineString'',
                                             g_coordinates = Some (JArr cs)\<rparr>,
                        f_properties = None, f_layer = None, f_source = None,
                        f_sourceLayer = None, f_other = []\<rparr>))
                \<and> getLayer (mapInstance (snd (addRouteToMap args s))) h \<noteq> None
                \<and> (getLayer (mapInstance s) h = None \<longrightarrow>
                     layers (mapInstance (snd (addRouteToMap args s)))
                       = layers (mapInstance s) @
                         [\<lparr>l_id = h, l_type = Some ''line'', l_source = Some h,
                           l_sourceLayer = None,
                           l_paint =
                             [(''line-color'', JStr (case arg_color args of
                                 None \<Rightarrow> defaultRouteColor (options s) | Some c \<Rightarrow> c)),
                              (''line-width'', JNum (case arg_width args of
                                 None \<Rightarrow> defaultRouteWidth (options s) | Some w \<Rightarrow> w)),
                              (''line-opacity'', JNum (8 / 10))],
                           l_layout = None, l_filter = None, l_minzoom = None,
                           l_maxzoom = None\<rparr>]
                     \<and> getLayer (mapInstance (snd (addRouteToMap args s))) h
                       = Some \<lparr>l_id = h, l_type = Some ''line'', l_source = Some h,
                           l_sourceLayer = None,
                           l_paint =
                             [(''line-color'', JStr (case arg_color args of
                                 None \<Rightarrow> defaultRouteColor (options s) | Some c \<Rightarrow> c)),
                              (''line-width'', JNum (case arg_width args of
                                 None \<Rightarrow> defaultRouteWidth (options s) | Some w \<Rightarrow> w)),
                              (''line-opacity'', JNum (8 / 10))],
                           l_layout = None, l_filter = None, l_minzoom = None,
                           l_maxzoom = None\<rparr>)))"
proof (intro impI)
  assume given: "arg_coordinates args = Some cs"
  let ?h = "layerHandle (case arg_layerName args of None \<Rightarrow> ''route-layer'' | Some n \<Rightarrow> n)
              (layerCounter s + 1)"
  let ?f = "\<lparr>f_geometry = Some \<lparr>g_type = ''LineString'', g_coordinates = Some (JArr cs)\<rparr>,
             f_properties = None, f_layer = None, f_source = None,
             f_sourceLayer = None, f_other = []\<rparr>"
  let ?src = "GeoJSON (Feature ?f)"
  let ?color = "case arg_color args of None \<Rightarrow> defaultRouteColor (options s) | Some c \<Rightarrow> c"
  let ?width = "case arg_width args of None \<Rightarrow> defaultRouteWidth (options s) | Some w \<Rightarrow> w"
  let ?layer = "\<lparr>l_id = ?h, l_type = Some ''line'', l_source = Some ?h,
                 l_sourceLayer = None,
                 l_paint = [(''line-color'', JStr ?color), (''line-width'', JNum ?width),
                            (''line-opacity'', JNum (8 / 10))],
                 l_layout = None, l_filter = None, l_minzoom = None, l_maxzoom = None\<rparr>"
  have feature: "geometryFeature ''LineString'' (Some (JArr cs)) = ?f"
    by (simp add: geometryFeature_def)
  have built: "routeLayer ?h ?color ?width = ?layer"
    by (simp add: routeLayer_def plainLayer_def)
  have id_layer: "l_id ?layer = ?h"
    by simp
  have goal: "layerCounter (snd (addRouteToMap args s)) = layerCounter s + 1
     \<and> ((\<exists>err. fst (addRouteToMap args s) = Inl err) \<longleftrightarrow> getSource (mapInstance s) ?h \<noteq> None)
     \<and> (\<forall>r. fst (addRouteToMap args s) = Inr r \<longrightarrow>
          \<not> isError r
          \<and> layerId r = Some ?h
          \<and> (\<forall>h. layerId r = Some h \<longrightarrow>
                sources (mapInstance (snd (addRouteToMap args s)))
                  = sources (mapInstance s) @ [(h, ?src)]
                \<and> getSource (mapInstance (snd (addRouteToMap args s))) h = Some ?src
                \<and> getLayer (mapInstance (snd (addRouteToMap args s))) h \<noteq> None
                \<and> (getLayer (mapInstance s) h = None \<longrightarrow>
                     layers (mapInstance (snd (addRouteToMap args s)))
                       = layers (mapInstance s) @ [?layer\<lparr>l_id := h, l_source := Some h\<rparr>]
                     \<and> getLayer (mapInstance (snd (addRouteToMap args s))) h
                       = Some (?layer\<lparr>l_id := h, l_source := Some h\<rparr>))))"
  proof (cases "getSource (mapInstance s) ?h")
    case (Some found)
    then have "\<exists>err. addSource ?h ?src (mapInstance s) = Inl err"
      by (rule addSource_taken)
    then obtain err where "addSource ?h ?src (mapInstance s) = Inl err" ..
    then have "addRouteToMap args s = (Inl err, tick s)"
      using given by (simp add: addRouteToMap_def Let_def tick_def feature)
    then show ?thesis using Some by (simp add: tick_def)
  next
    case None
    let ?e1 = "(mapInstance s)\<lparr>sources := sources (mapInstance s) @ [(?h, ?src)]\<rparr>"
    have added: "addSource ?h ?src (mapInstance s) = Inr ?e1"
      using None by (rule addSource_fresh)
    have result: "addRouteToMap args s =
        (Inr (routeResult (length cs) ?h), (tick s)\<lparr>mapInstance := addLayer ?layer ?e1\<rparr>)"
      using given added
      by (simp add: addRouteToMap_def Let_def tick_def feature built [simplified])
    have srcs: "sources (addLayer ?layer ?e1) = sources (mapInstance s) @ [(?h, ?src)]"
      by (simp add: addLayer_sources)
    have source: "getSource (addLayer ?layer ?e1) ?h = Some ?src"
      using None by (simp add: getSource_addLayer getSource_append)
    have layer: "getLayer (addLayer ?layer ?e1) ?h \<noteq> None"
      using getLayer_addLayer_same [of ?layer ?e1] unfolding id_layer .
    have fresh: "layers (addLayer ?layer ?e1) = layers (mapInstance s) @ [?layer]
                 \<and> getLayer (addLayer ?layer ?e1) ?h = Some ?layer"
      if absent: "getLayer (mapInstance s) ?h = None"
    proof -
      from absent have "getLayer ?e1 (l_id ?layer) = None"
        unfolding id_layer getLayer_def by simp
      then have "layers (addLayer ?layer ?e1) = layers ?e1 @ [?layer]"
        by (rule addLayer_fresh)
      then have appended: "layers (addLayer ?layer ?e1) = layers (mapInstance s) @ [?layer]"
        by simp
      have "find (\<lambda>l. l_id l = ?h) (layers (mapInstance s) @ [?layer]) = Some ?layer"
        using absent unfolding getLayer_def by (simp add: find_snoc)
      with appended show ?thesis by (simp add: getLayer_def)
    qed
    show ?thesis
      using None srcs source layer fresh
      by (simp add: result tick_def result_isError result_layerId)
  qed
  then show "layerCounter (snd (addRouteToMap args s)) = layerCounter s + 1
     \<and> ((\<exists>err. fst (addRouteToMap args s) = Inl err) \<longleftrightarrow> getSource (mapInstance s) ?h \<noteq> None)
     \<and> (\<forall>r. fst (addRouteToMap args s) = Inr r \<longrightarrow>
          \<not> isError r
          \<and> layerId r = Some ?h
          \<and> (\<forall>h. layerId r = Some h \<longrightarrow>
                sources (mapInstance (snd (addRouteToMap args s)))
                  = sources (mapInstance s) @ [(h, ?src)]
                \<and> getSource (mapInstance (snd (addRouteToMap args s))) h = Some ?src
                \<and> getLayer (mapInstance (snd (addRouteToMap args s))) h \<noteq> None
                \<and> (getLayer (mapInstance s) h = None \<longrightarrow>
                     layers (mapInstance (snd (addRouteToMap args s)))
                       = layers (mapInstance s) @
                         [\<lparr>l_id = h, l_type = Some ''line'', l_source = Some h,
                           l_sourceLayer = None,
                           l_paint = [(''line-color'', JStr ?color), (''line-width'', JNum ?width),
                                      (''line-opacity'', JNum (8 / 10))],
                           l_layout = None, l_filter = None, l_minzoom = None,
                           l_maxzoom = None\<rparr>]
                     \<and> getLayer (mapInstance (snd (addRouteToMap args s))) h
                       = Some \<lparr>l_id = h, l_type = Some ''line'', l_source = Some h,
                           l_sourceLayer = None,
                           l_paint = [(''line-color'', JStr ?color), (''line-width'', JNum ?width),
                                      (''line-opacity'', JNum (8 / 10))],
                           l_layout = None, l_filter = None, l_minzoom = None,
                           l_maxzoom = None\<rparr>)))"
    by simp
qed

theorem route_never_validates_count_witness:
  "arg_coordinates (noArgs\<lparr>arg_coordinates := Some []\<rparr>) = Some []
   \<and> fst (addRouteToMap (noArgs\<lparr>arg_coordinates := Some []\<rparr>) freshTools)
       = Inr (routeResult 0 ''route-layer-1'')
   \<and> layerCounter (snd (addRouteToMap (noArgs\<lparr>arg_coordinates := Some []\<rparr>) freshTools)) = 1
   \<and> sources (mapInstance (snd (addRouteToMap (noArgs\<lparr>arg_coordinates := Some []\<rparr>) freshTools)))
       = [(''route-layer-1'', GeoJSON (Feature
            \<lparr>f_geometry = Some \<lparr>g_type = ''LineString'', g_coordinates = Some (JArr [])\<rparr>,
             f_properties = None, f_layer = None, f_source = None,
             f_sourceLayer = None, f_other = []\<rparr>))]
   \<and> layers (mapInstance (snd (addRouteToMap (noArgs\<lparr>arg_coordinates := Some []\<rparr>) freshTools)))
       = [\<lparr>l_id = ''route-layer-1'', l_type = Some ''line'', l_source = Some ''route-layer-1'',
           l_sourceLayer = None,
           l_paint = [(''line-color'', JStr ''#0074D9''), (''line-width'', JNum 4),
                      (''line-opacity'', JNum (8 / 10))],
           l_layout = None, l_filter = None, l_minzoom = None, l_maxzoom = None\<rparr>]
   \<and> fst (addRouteToMap (noArgs\<lparr>arg_coordinates := Some [JArr [JNum 2, JNum 48]]\<rparr>) freshTools)
       = Inr (routeResult 1 ''route-layer-1'')
   \<and> getSource (mapInstance (occupiedTools)) ''route-layer-1'' \<noteq> None
   \<and> (\<exists>err. fst (addRouteToMap (noArgs\<lparr>arg_coordinates := Some []\<rparr>) occupiedTools) = Inl err)"
proof -
  let ?args = "noArgs\<lparr>arg_coordinates := Some []\<rparr>"
  let ?single = "noArgs\<lparr>arg_coordinates := Some [JArr [JNum 2, JNum 48]]\<rparr>"
  have given: "arg_coordinates ?args = Some []"
    "arg_coordinates ?single = Some [JArr [JNum 2, JNum 48]]"
    "arg_layerName ?args = None" "arg_color ?args = None" "arg_width ?args = None"
    by (simp_all add: noArgs_def)
  have result: "fst (addRouteToMap ?args freshTools) = Inr (routeResult 0 ''route-layer-1'')"
    by (simp add: addRouteToMap_def Let_def tick_def noArgs_def freshTools_def emptyEngine_def
          layerHandle_def dec.simps digit_def addSource_def getSource_def)
  have single: "fst (addRouteToMap ?single freshTools) = Inr (routeResult 1 ''route-layer-1'')"
    by (simp add: addRouteToMap_def Let_def tick_def noArgs_def freshTools_def emptyEngine_def
          layerHandle_def dec.simps digit_def addSource_def getSource_def)
  have handle: "layerId (routeResult 0 ''route-layer-1'') = Some ''route-layer-1''"
    by (simp add: result_layerId)
  have fresh: "layerCounter freshTools = 0" "layerCounter occupiedTools = 0"
    "sources (mapInstance freshTools) = []" "layers (mapInstance freshTools) = []"
    "getLayer (mapInstance freshTools) ''route-layer-1'' = None"
    "defaultRouteColor (options freshTools) = ''#0074D9''"
    "defaultRouteWidth (options freshTools) = 4"
    by (simp_all add: freshTools_def occupiedTools_def emptyEngine_def getLayer_def
          defaultOptions_def)
  have name: "layerHandle ''route-layer'' 1 = ''route-layer-1''"
    by (simp add: layerHandle_def dec.simps digit_def)
  have taken: "getSource (mapInstance occupiedTools) ''route-layer-1'' \<noteq> None"
    by (simp add: occupiedTools_def freshTools_def emptyEngine_def getSource_def)
  show ?thesis
    using given result single handle fresh name taken
      route_never_validates_count [where args = ?args and cs = "[]" and s = freshTools]
      route_never_validates_count [where args = ?args and cs = "[]" and s = occupiedTools]
    by simp
qed

lemma addPolygonToMap_source:
  assumes "fst (addPolygonToMap args s) = Inr r" and "layerId r = Some h"
  shows "getSource (mapInstance (snd (addPolygonToMap args s))) h =
           Some (GeoJSON (Feature (geometryFeature ''Polygon''
                   (map_option JArr (arg_coordinates args)))))"
proof -
  let ?h = "layerHandle (case arg_layerName args of None \<Rightarrow> ''polygon-layer'' | Some n \<Rightarrow> n)
              (Suc (layerCounter s))"
  let ?src = "GeoJSON (Feature (geometryFeature ''Polygon''
                (map_option JArr (arg_coordinates args))))"
  have h: "h = ?h"
    using addPolygonToMap_layerId [OF assms(1)] assms(2) by simp
  show ?thesis
  proof (cases "getSource (mapInstance s) ?h")
    case (Some found)
    then obtain err where "addSource ?h ?src (mapInstance s) = Inl err"
      using addSource_taken by blast
    then have "fst (addPolygonToMap args s) = Inl err"
      by (simp add: addPolygonToMap_def Let_def tick_def)
    with assms(1) show ?thesis by simp
  next
    case None
    then have "addSource ?h ?src (mapInstance s)
        = Inr ((mapInstance s)\<lparr>sources := sources (mapInstance s) @ [(?h, ?src)]\<rparr>)"
      by (rule addSource_fresh)
    then show ?thesis
      using None
      by (simp add: h addPolygonToMap_def Let_def tick_def getSource_addLayer getSource_append)
  qed
qed

lemma slice0_single: "1 \<le> n \<Longrightarrow> slice0 [x] n = [x]"
  by (cases "nat n") (auto simp: slice0_def)

lemma querySourceFeatures_geojson:
  assumes "getSource (mapInstance s) h = Some (GeoJSON (Feature f))"
    and "arg_sourceId q = Some h"
    and "arg_includeGeometry q \<noteq> Some False"
    and "arg_filter q = None"
    and "\<forall>n. arg_limit q = Some n \<longrightarrow> 1 \<le> n"
  shows "fst (querySourceFeatures q s) = Inr (sourcedResult h (arg_sourceLayer q) [f])"
proof -
  have found: "fst (engineQuerySource h (sourceOptions q) (mapInstance s)) = [f]"
    using assms(1,4) by (simp add: engineQuerySource_def sourceOptions_def)
  have limited: "slice0 [f] (case arg_limit q of None \<Rightarrow> 1000 | Some n \<Rightarrow> n) = [f]"
    using assms(5) by (intro slice0_single) (simp split: option.splits)
  have included: "(case arg_includeGeometry q of None \<Rightarrow> True | Some b \<Rightarrow> b)"
    using assms(3) by (cases "arg_includeGeometry q") auto
  show ?thesis
    using assms(1,2) found limited included
    by (simp add: querySourceFeatures_def Let_def)
qed

lemma executeTool_success:
  "\<not> isError (fst (executeTool rt t a s)) \<Longrightarrow>
   fst (dispatch rt t a s) = Inr (fst (executeTool rt t a s))"
  by (cases "dispatch rt t a s"; cases "fst (dispatch rt t a s)")
     (auto simp: executeTool_def errorEnvelope_def)

lemma addPolygonToMap_fails_iff:
  "(\<exists>err. fst (addPolygonToMap args s) = Inl err) \<longleftrightarrow>
   getSource (mapInstance s)
     (layerHandle (case arg_layerName args of None \<Rightarrow> ''polygon-layer'' | Some n \<Rightarrow> n)
        (Suc (layerCounter s))) \<noteq> None"
proof -
  let ?h = "layerHandle (case arg_layerName args of None \<Rightarrow> ''polygon-layer'' | Some n \<Rightarrow> n)
              (Suc (layerCounter s))"
  let ?src = "GeoJSON (Feature (geometryFeature ''Polygon''
                (map_option JArr (arg_coordinates args))))"
  show ?thesis
  proof (cases "getSource (mapInstance s) ?h")
    case (Some found)
    then obtain err where "addSource ?h ?src (mapInstance s) = Inl err"
      using addSource_taken by blast
    then have "fst (addPolygonToMap args s) = Inl err"
      by (simp add: addPolygonToMap_def Let_def tick_def)
    then show ?thesis using Some by simp
  next
    case None
    then have "addSource ?h ?src (mapInstance s)
        = Inr ((mapInstance s)\<lparr>sources := sources (mapInstance s) @ [(?h, ?src)]\<rparr>)"
      by (rule addSource_fresh)
    then have "fst (addPolygonToMap args s) = Inr (polygonResult ?h)"
      by (simp add: addPolygonToMap_def Let_def tick_def)
    then show ?thesis using None by simp
  qed
qed

lemma executeTool_isError_iff:
  "isError (fst (executeTool rt t a s)) \<longleftrightarrow> (\<exists>err. fst (dispatch rt t a s) = Inl err)"
proof (cases "fst (dispatch rt t a s)")
  case (Inl e)
  then show ?thesis
    by (cases "dispatch rt t a s") (simp add: executeTool_def errorEnvelope_def)
next
  case (Inr r)
  then show ?thesis
    using dispatch_success_not_error [OF Inr]
    by (cases "dispatch rt t a s") (simp add: executeTool_def)
qed

text \<open>
  C8. Round trip of a polygon through the engine's own table of sources. For every
  coordinates input \<open>rings\<close>, \<open>add_polygon_to_map\<close> fails exactly when the engine already
  has a source under the handle about to be minted; in every other case it succeeds and
  returns that handle as \<open>layerId\<close>. After a successful add, \<open>query_source_features\<close> on
  the returned \<open>layerId\<close> (the polygon's source carries that id), with geometry included,
  no filter and a limit of at least one, succeeds and returns a FeatureCollection of
  exactly one feature, whose geometry is a Polygon with the coordinates \<open>rings\<close> as they
  were given.
\<close>

theorem polygon_round_trip:
  "arg_coordinates args = Some rings \<longrightarrow>
     (isError (fst (executeTool rt ''add_polygon_to_map'' args s)) \<longleftrightarrow>
        getSource (mapInstance s)
          (layerHandle (case arg_layerName args of None \<Rightarrow> ''polygon-layer'' | Some n \<Rightarrow> n)
             (layerCounter s + 1)) \<noteq> None)
     \<and> (\<not> isError (fst (executeTool rt ''add_polygon_to_map'' args s)) \<longrightarrow>
          layerId (fst (executeTool rt ''add_polygon_to_map'' args s)) =
            Some (layerHandle
                    (case arg_layerName args of None \<Rightarrow> ''polygon-layer'' | Some n \<Rightarrow> n)
                    (layerCounter s + 1)))
     \<and> (\<not> isError (fst (executeTool rt ''add_polygon_to_map'' args s))
          \<and> arg_sourceId q = layerId (fst (executeTool rt ''add_polygon_to_map'' args s))
          \<and> arg_includeGeometry q \<noteq> Some False
          \<and> arg_filter q = None
          \<and> (\<forall>n. arg_limit q = Some n \<longrightarrow> 1 \<le> n)
        \<longrightarrow>
          arg_sourceId q \<noteq> None
          \<and> \<not> isError (fst (executeTool rt ''query_source_features'' q
                               (snd (executeTool rt ''add_polygon_to_map'' args s))))
          \<and> (\<exists>f. data (fst (executeTool rt ''query_source_features'' q
                             (snd (executeTool rt ''add_polygon_to_map'' args s)))) = Some [f]
                 \<and> f_geometry f
                     = Some \<lparr>g_type = ''Polygon'', g_coordinates = Some (JArr rings)\<rparr>))"
proof (intro impI conjI)
  let ?r = "fst (executeTool rt ''add_polygon_to_map'' args s)"
  let ?s1 = "snd (executeTool rt ''add_polygon_to_map'' args s)"
  let ?f = "geometryFeature ''Polygon'' (Some (JArr rings))"
  let ?H = "layerHandle (case arg_layerName args of None \<Rightarrow> ''polygon-layer'' | Some n \<Rightarrow> n)
              (layerCounter s + 1)"
  assume given: "arg_coordinates args = Some rings"
  have same: "dispatch rt ''add_polygon_to_map'' args s = addPolygonToMap args s"
    by (simp add: dispatch_def)
  show fails: "isError ?r \<longleftrightarrow> getSource (mapInstance s) ?H \<noteq> None"
    using executeTool_isError_iff [of rt "''add_polygon_to_map''" args s]
      addPolygonToMap_fails_iff [of args s]
    by (simp add: same)
  have state: "?s1 = snd (addPolygonToMap args s)"
    by (simp add: executeTool_state same)
  have added: "fst (addPolygonToMap args s) = Inr ?r" if "\<not> isError ?r"
    using executeTool_success [of rt "''add_polygon_to_map''" args s] that same by simp
  show handle: "layerId ?r = Some ?H" if "\<not> isError ?r"
    using addPolygonToMap_layerId [OF added [OF that]] by simp
  show "arg_sourceId q \<noteq> None"
    if hyp: "\<not> isError ?r \<and> arg_sourceId q = layerId ?r \<and> arg_includeGeometry q \<noteq> Some False
      \<and> arg_filter q = None \<and> (\<forall>n. arg_limit q = Some n \<longrightarrow> 1 \<le> n)"
    using hyp handle by simp
  show "\<not> isError (fst (executeTool rt ''query_source_features'' q ?s1))"
    and "\<exists>f. data (fst (executeTool rt ''query_source_features'' q ?s1)) = Some [f]
            \<and> f_geometry f = Some \<lparr>g_type = ''Polygon'', g_coordinates = Some (JArr rings)\<rparr>"
    if hyp: "\<not> isError ?r \<and> arg_sourceId q = layerId ?r \<and> arg_includeGeometry q \<noteq> Some False
      \<and> arg_filter q = None \<and> (\<forall>n. arg_limit q = Some n \<longrightarrow> 1 \<le> n)"
  proof -
    from hyp have ok: "\<not> isError ?r" by simp
    have h: "layerId ?r = Some ?H" using handle [OF ok] .
    have stored: "getSource (mapInstance ?s1) ?H = Some (GeoJSON (Feature ?f))"
      using addPolygonToMap_source [OF added [OF ok] h] given by (simp add: state)
    have queried: "fst (querySourceFeatures q ?s1)
        = Inr (sourcedResult ?H (arg_sourceLayer q) [?f])"
      using querySourceFeatures_geojson [OF stored] hyp h by simp
    have "dispatch rt ''query_source_features'' q ?s1 = querySourceFeatures q ?s1"
      by (simp add: dispatch_def)
    with queried have result: "fst (executeTool rt ''query_source_features'' q ?s1)
        = sourcedResult ?H (arg_sourceLayer q) [?f]"
      by (cases "querySourceFeatures q ?s1") (simp add: executeTool_def)
    have geometry: "f_geometry ?f
        = Some \<lparr>g_type = ''Polygon'', g_coordinates = Some (JArr rings)\<rparr>"
      by (simp add: geometryFeature_def)
    show "\<not> isError (fst (executeTool rt ''query_source_features'' q ?s1))"
      by (simp add: result result_isError)
    show "\<exists>f. data (fst (executeTool rt ''query_source_features'' q ?s1)) = Some [f]
            \<and> f_geometry f = Some \<lparr>g_type = ''Polygon'', g_coordinates = Some (JArr rings)\<rparr>"
      using geometry by (simp add: result sourcedResult_def textResult_def)
  qed
qed

theorem polygon_round_trip_witness:
  "arg_coordinates squareArgs =
     Some [JArr [JArr [JNum 0, JNum 0], JArr [JNum 1, JNum 0], JArr [JNum 1, JNum 1],
                 JArr [JNum 0, JNum 0]]]
   \<and> \<not> isError (fst (executeTool sampleRuntime ''add_polygon_to_map'' squareArgs freshTools))
   \<and> layerId (fst (executeTool sampleRuntime ''add_polygon_to_map'' squareArgs freshTools))
       = Some ''polygon-layer-1''
   \<and> (\<exists>f. data (fst (executeTool sampleRuntime ''query_source_features''
                     (noArgs\<lparr>arg_sourceId := Some ''polygon-layer-1''\<rparr>)
                     (snd (executeTool sampleRuntime ''add_polygon_to_map'' squareArgs
                             freshTools)))) = Some [f]
          \<and> f_geometry f = Some \<lparr>g_type = ''Polygon'', g_coordinates =
               Some (JArr [JArr [JArr [JNum 0, JNum 0], JArr [JNum 1, JNum 0],
                                 JArr [JNum 1, JNum 1], JArr [JNum 0, JNum 0]]])\<rparr>)
   \<and> \<not> isError (fst (executeTool sampleRuntime ''add_polygon_to_map''
                      (squareArgs\<lparr>arg_layerName := Some ''zone''\<rparr>) freshTools))
   \<and> layerId (fst (executeTool sampleRuntime ''add_polygon_to_map''
                      (squareArgs\<lparr>arg_layerName := Some ''zone''\<rparr>) freshTools))
       = Some ''zone-1''
   \<and> (\<exists>f. data (fst (executeTool sampleRuntime ''query_source_features''
                     (noArgs\<lparr>arg_sourceId := Some ''zone-1''\<rparr>)
                     (snd (executeTool sampleRuntime ''add_polygon_to_map''
                             (squareArgs\<lparr>arg_layerName := Some ''zone''\<rparr>) freshTools))))
            = Some [f]
          \<and> f_geometry f = Some \<lparr>g_type = ''Polygon'', g_coordinates =
               Some (JArr [JArr [JArr [JNum 0, JNum 0], JArr [JNum 1, JNum 0],
                                 JArr [JNum 1, JNum 1], JArr [JNum 0, JNum 0]]])\<rparr>)"
proof -
  let ?rings = "[JArr [JArr [JNum 0, JNum 0], JArr [JNum 1, JNum 0],
                       JArr [JNum 1, JNum 1], JArr [JNum 0, JNum 0]]]"
  let ?zone = "squareArgs\<lparr>arg_layerName := Some ''zone''\<rparr>"
  have rings: "arg_coordinates squareArgs = Some ?rings" "arg_coordinates ?zone = Some ?rings"
    "arg_layerName squareArgs = None" "arg_layerName ?zone = Some ''zone''"
    by (simp_all add: squareArgs_def noArgs_def)
  have names: "layerHandle ''polygon-layer'' 1 = ''polygon-layer-1''"
    "layerHandle ''zone'' 1 = ''zone-1''"
    by (simp_all add: layerHandle_def dec.simps digit_def)
  have fresh: "layerCounter freshTools = 0"
    "getSource (mapInstance freshTools) ''polygon-layer-1'' = None"
    "getSource (mapInstance freshTools) ''zone-1'' = None"
    by (simp_all add: freshTools_def emptyEngine_def getSource_def)
  have query: "arg_sourceId (noArgs\<lparr>arg_sourceId := Some ''polygon-layer-1''\<rparr>)
                 = Some ''polygon-layer-1''"
    "arg_includeGeometry (noArgs\<lparr>arg_sourceId := Some ''polygon-layer-1''\<rparr>) = None"
    "arg_filter (noArgs\<lparr>arg_sourceId := Some ''polygon-layer-1''\<rparr>) = None"
    "arg_limit (noArgs\<lparr>arg_sourceId := Some ''polygon-layer-1''\<rparr>) = None"
    "arg_sourceId (noArgs\<lparr>arg_sourceId := Some ''zone-1''\<rparr>) = Some ''zone-1''"
    "arg_includeGeometry (noArgs\<lparr>arg_sourceId := Some ''zone-1''\<rparr>) = None"
    "arg_filter (noArgs\<lparr>arg_sourceId := Some ''zone-1''\<rparr>) = None"
    "arg_limit (noArgs\<lparr>arg_sourceId := Some ''zone-1''\<rparr>) = None"
    by (simp_all add: noArgs_def)
  let ?q1 = "noArgs\<lparr>arg_sourceId := Some ''polygon-layer-1''\<rparr>"
  let ?q2 = "noArgs\<lparr>arg_sourceId := Some ''zone-1''\<rparr>"
  let ?r1 = "fst (executeTool sampleRuntime ''add_polygon_to_map'' squareArgs freshTools)"
  let ?r2 = "fst (executeTool sampleRuntime ''add_polygon_to_map'' ?zone freshTools)"
  note square = polygon_round_trip [where args = squareArgs and rt = sampleRuntime
      and s = freshTools and q = ?q1 and rings = ?rings]
  note zone = polygon_round_trip [where args = ?zone and rt = sampleRuntime
      and s = freshTools and q = ?q2 and rings = ?rings]
  have ok1: "\<not> isError ?r1"
    using square rings names fresh by simp
  have id1: "layerId ?r1 = Some ''polygon-layer-1''"
    using square rings names fresh ok1 by simp
  have hyp1: "\<not> isError ?r1 \<and> arg_sourceId ?q1 = layerId ?r1
      \<and> arg_includeGeometry ?q1 \<noteq> Some False \<and> arg_filter ?q1 = None
      \<and> (\<forall>n. arg_limit ?q1 = Some n \<longrightarrow> 1 \<le> n)"
    using ok1 id1 query by simp
  have ok2: "\<not> isError ?r2"
    using zone rings names fresh by simp
  have id2: "layerId ?r2 = Some ''zone-1''"
    using zone rings names fresh ok2 by simp
  have hyp2: "\<not> isError ?r2 \<and> arg_sourceId ?q2 = layerId ?r2
      \<and> arg_includeGeometry ?q2 \<noteq> Some False \<and> arg_filter ?q2 = None
      \<and> (\<forall>n. arg_limit ?q2 = Some n \<longrightarrow> 1 \<le> n)"
    using ok2 id2 query by simp
  show ?thesis
    using rings(1) ok1 id1 ok2 id2 square hyp1 rings(1) zone hyp2 rings(2)
    by blast
qed

section \<open>Vector tileset sources\<close>

lemma generateSourceId_kept: "c \<in> set (generateSourceId u) \<Longrightarrow> keptChar c"
  by (auto simp: generateSourceId_def keptChar_def alphanumeric_def)

lemma addVectorTilesetLayer_accepted:
  assumes "arg_tilesetUrl a = Some url" and "acceptedScheme url"
  shows "addVectorTilesetLayer a s =
     (Inr (vectorResult
             (layerHandle (case arg_layerName a of None \<Rightarrow> ''vector-tileset-layer'' | Some n \<Rightarrow> n)
                (Suc (layerCounter s)))
             (generateSourceId url) (arg_sourceLayer a)),
      (tick s)\<lparr>mapInstance :=
         addLayer
           (layerConfig a
              (layerHandle (case arg_layerName a of None \<Rightarrow> ''vector-tileset-layer'' | Some n \<Rightarrow> n)
                 (Suc (layerCounter s)))
              (generateSourceId url))
           (if getSource (mapInstance s) (generateSourceId url) = None
            then (mapInstance s)\<lparr>sources := sources (mapInstance s) @
                   [(generateSourceId url, vectorSource url)]\<rparr>
            else mapInstance s)\<rparr>)"
proof (cases "getSource (mapInstance s) (generateSourceId url)")
  case None
  then have "addSource (generateSourceId url) (vectorSource url) (mapInstance s)
      = Inr ((mapInstance s)\<lparr>sources := sources (mapInstance s) @
               [(generateSourceId url, vectorSource url)]\<rparr>)"
    by (rule addSource_fresh)
  then show ?thesis
    using assms None by (simp add: addVectorTilesetLayer_def Let_def tick_def)
next
  case (Some found)
  then show ?thesis
    using assms by (simp add: addVectorTilesetLayer_def Let_def tick_def)
qed

lemma addVectorTilesetLayer_sources:
  assumes "arg_tilesetUrl a = Some url" and "acceptedScheme url"
  shows "sources (mapInstance (snd (addVectorTilesetLayer a s))) =
           (if getSource (mapInstance s) (generateSourceId url) = None
            then sources (mapInstance s) @ [(generateSourceId url, vectorSource url)]
            else sources (mapInstance s))"
  by (simp add: addVectorTilesetLayer_accepted [OF assms] addLayer_sources)

lemma addVectorTilesetLayer_has_source:
  assumes "arg_tilesetUrl a = Some url" and "acceptedScheme url"
  shows "getSource (mapInstance (snd (addVectorTilesetLayer a s))) (generateSourceId url) \<noteq> None"
  by (simp add: addVectorTilesetLayer_accepted [OF assms] getSource_addLayer getSource_append
        split: option.splits)

text \<open>
  C5, as stated, fails in its description of the id: the character class of
  \<open>generateSourceId\<close> keeps the dash, the underscore and the dot, so not every
  non-alphanumeric character is replaced. On the Mapbox traffic tileset the dot of the
  URL stays in the id.
\<close>

theorem source_id_keeps_dot:
  "generateSourceId ''mapbox://mapbox.mapbox-traffic-v1''
     = ''mapbox.mapbox-traffic-v1-vector-source''
   \<and> statedSourceId ''mapbox://mapbox.mapbox-traffic-v1''
     = ''mapbox-mapbox-traffic-v1-vector-source''
   \<and> generateSourceId ''mapbox://mapbox.mapbox-traffic-v1''
     \<noteq> statedSourceId ''mapbox://mapbox.mapbox-traffic-v1''"
  by (simp add: generateSourceId_def statedSourceId_def stripScheme_def startsWith_def
        keptChar_def alphanumeric_def)

text \<open>
  C5, amended. \<open>addVectorTilesetLayer\<close> derives the source id from the tileset URL alone:
  the scheme prefix is stripped, every character other than an ASCII letter, a digit, a
  dash, an underscore or a dot is replaced by a dash, and \<open>-vector-source\<close> is appended.
  Two calls with the same accepted URL, whatever their layer names, both succeed, return
  that same source id and two distinct layer ids; the first call adds the source unless
  the engine already has one under that id, and the second call adds no source.
\<close>

theorem vector_source_reused:
  "acceptedScheme url \<and> arg_tilesetUrl a1 = Some url \<and> arg_tilesetUrl a2 = Some url \<longrightarrow>
     (\<forall>c \<in> set (generateSourceId url). alphanumeric c \<or> c \<in> set ''-_.'')
     \<and> generateSourceId url =
         map (\<lambda>c. if alphanumeric c \<or> c \<in> set ''-_.'' then c else CHR ''-'') (stripScheme url)
           @ ''-vector-source''
     \<and> (\<exists>r1 r2 h1 h2.
           fst (addVectorTilesetLayer a1 s) = Inr r1
           \<and> fst (addVectorTilesetLayer a2 (snd (addVectorTilesetLayer a1 s))) = Inr r2
           \<and> sourceId r1 = Some (generateSourceId url)
           \<and> sourceId r2 = Some (generateSourceId url)
           \<and> layerId r1 = Some h1 \<and> layerId r2 = Some h2 \<and> h1 \<noteq> h2)
     \<and> sources (mapInstance (snd (addVectorTilesetLayer a1 s))) =
         (if getSource (mapInstance s) (generateSourceId url) = None
          then sources (mapInstance s) @ [(generateSourceId url, vectorSource url)]
          else sources (mapInstance s))
     \<and> sources (mapInstance (snd (addVectorTilesetLayer a2 (snd (addVectorTilesetLayer a1 s)))))
         = sources (mapInstance (snd (addVectorTilesetLayer a1 s)))"
proof (intro impI)
  assume hyp: "acceptedScheme url \<and> arg_tilesetUrl a1 = Some url \<and> arg_tilesetUrl a2 = Some url"
  let ?s1 = "snd (addVectorTilesetLayer a1 s)"
  let ?n1 = "case arg_layerName a1 of None \<Rightarrow> ''vector-tileset-layer'' | Some n \<Rightarrow> n"
  let ?n2 = "case arg_layerName a2 of None \<Rightarrow> ''vector-tileset-layer'' | Some n \<Rightarrow> n"
  let ?h1 = "layerHandle ?n1 (Suc (layerCounter s))"
  let ?h2 = "layerHandle ?n2 (Suc (layerCounter ?s1))"
  have first: "fst (addVectorTilesetLayer a1 s)
      = Inr (vectorResult ?h1 (generateSourceId url) (arg_sourceLayer a1))"
    using hyp by (simp add: addVectorTilesetLayer_accepted)
  have second: "fst (addVectorTilesetLayer a2 ?s1)
      = Inr (vectorResult ?h2 (generateSourceId url) (arg_sourceLayer a2))"
    using hyp by (simp add: addVectorTilesetLayer_accepted [of a2 url ?s1])
  have counter: "layerCounter ?s1 = Suc (layerCounter s)"
    using hyp by (simp add: addVectorTilesetLayer_counter)
  have "handleNumber ?h1 \<noteq> handleNumber ?h2"
    by (simp add: handleNumber_layerHandle counter)
  then have different: "?h1 \<noteq> ?h2" by auto
  have kept: "\<forall>c \<in> set (generateSourceId url). alphanumeric c \<or> c \<in> set ''-_.''"
    using generateSourceId_kept [of _ url] by (simp add: keptChar_def)
  have shape: "generateSourceId url =
         map (\<lambda>c. if alphanumeric c \<or> c \<in> set ''-_.'' then c else CHR ''-'') (stripScheme url)
           @ ''-vector-source''"
    by (simp add: generateSourceId_def keptChar_def)
  have once: "sources (mapInstance ?s1) =
         (if getSource (mapInstance s) (generateSourceId url) = None
          then sources (mapInstance s) @ [(generateSourceId url, vectorSource url)]
          else sources (mapInstance s))"
    using hyp by (simp add: addVectorTilesetLayer_sources)
  have present: "getSource (mapInstance ?s1) (generateSourceId url) \<noteq> None"
    using hyp by (simp add: addVectorTilesetLayer_has_source)
  have reused: "sources (mapInstance (snd (addVectorTilesetLayer a2 ?s1)))
      = sources (mapInstance ?s1)"
    using hyp present by (simp add: addVectorTilesetLayer_sources [of a2 url ?s1])
  have results: "\<exists>r1 r2 h1 h2.
           fst (addVectorTilesetLayer a1 s) = Inr r1
           \<and> fst (addVectorTilesetLayer a2 ?s1) = Inr r2
           \<and> sourceId r1 = Some (generateSourceId url)
           \<and> sourceId r2 = Some (generateSourceId url)
           \<and> layerId r1 = Some h1 \<and> layerId r2 = Some h2 \<and> h1 \<noteq> h2"
    using first second different
    by (intro exI [of _ "vectorResult ?h1 (generateSourceId url) (arg_sourceLayer a1)"]
              exI [of _ "vectorResult ?h2 (generateSourceId url) (arg_sourceLayer a2)"]
              exI [of _ ?h1] exI [of _ ?h2])
       (simp add: vectorResult_def textResult_def)
  from kept shape results once reused show
    "(\<forall>c \<in> set (generateSourceId url). alphanumeric c \<or> c \<in> set ''-_.'')
     \<and> generateSourceId url =
         map (\<lambda>c. if alphanumeric c \<or> c \<in> set ''-_.'' then c else CHR ''-'') (stripScheme url)
           @ ''-vector-source''
     \<and> (\<exists>r1 r2 h1 h2.
           fst (addVectorTilesetLayer a1 s) = Inr r1
           \<and> fst (addVectorTilesetLayer a2 ?s1) = Inr r2
           \<and> sourceId r1 = Some (generateSourceId url)
           \<and> sourceId r2 = Some (generateSourceId url)
           \<and> layerId r1 = Some h1 \<and> layerId r2 = Some h2 \<and> h1 \<noteq> h2)
     \<and> sources (mapInstance ?s1) =
         (if getSource (mapInstance s) (generateSourceId url) = None
          then sources (mapInstance s) @ [(generateSourceId url, vectorSource url)]
          else sources (mapInstance s))
     \<and> sources (mapInstance (snd (addVectorTilesetLayer a2 ?s1))) = sources (mapInstance ?s1)"
    by blast
qed

theorem vector_source_reused_witness:
  "acceptedScheme ''mapbox://mapbox.mapbox-traffic-v1''
   \<and> generateSourceId ''mapbox://mapbox.mapbox-traffic-v1''
       = ''mapbox.mapbox-traffic-v1-vector-source''
   \<and> sources (mapInstance (snd (addVectorTilesetLayer
        (noArgs\<lparr>arg_tilesetUrl := Some ''mapbox://mapbox.mapbox-traffic-v1'',
                arg_layerName := Some ''congestion''\<rparr>)
        (snd (addVectorTilesetLayer
           (noArgs\<lparr>arg_tilesetUrl := Some ''mapbox://mapbox.mapbox-traffic-v1'',
                   arg_layerName := Some ''traffic''\<rparr>) freshTools)))))
       = [(''mapbox.mapbox-traffic-v1-vector-source'',
           Vector (Url ''mapbox://mapbox.mapbox-traffic-v1''))]"
proof -
  let ?url = "''mapbox://mapbox.mapbox-traffic-v1''"
  let ?a1 = "noArgs\<lparr>arg_tilesetUrl := Some ?url, arg_layerName := Some ''traffic''\<rparr>"
  let ?a2 = "noArgs\<lparr>arg_tilesetUrl := Some ?url, arg_layerName := Some ''congestion''\<rparr>"
  have accepted: "acceptedScheme ?url"
    by (simp add: acceptedScheme_def startsWith_def)
  have urls: "arg_tilesetUrl ?a1 = Some ?url" "arg_tilesetUrl ?a2 = Some ?url"
    by (simp_all add: noArgs_def)
  have sid: "generateSourceId ?url = ''mapbox.mapbox-traffic-v1-vector-source''"
    by (simp add: generateSourceId_def stripScheme_def startsWith_def keptChar_def
          alphanumeric_def)
  have source: "vectorSource ?url = Vector (Url ?url)"
    by (simp add: vectorSource_def startsWith_def)
  have fresh: "sources (mapInstance freshTools) = []"
    "getSource (mapInstance freshTools) ''mapbox.mapbox-traffic-v1-vector-source'' = None"
    by (simp_all add: freshTools_def emptyEngine_def getSource_def)
  show ?thesis
    using accepted urls source fresh
      vector_source_reused [where url = ?url and ?a1.0 = ?a1 and ?a2.0 = ?a2 and s = freshTools]
    unfolding sid by simp
qed

section \<open>Clearing layers\<close>

text \<open>
  C3. The code at the failing input. A points layer added under the caller's name
  \<open>cities\<close> gets the id \<open>cities-1\<close>, which neither contains \<open>-layer-\<close> nor ends with
  \<open>-fill\<close> or \<open>-stroke\<close>: "remove all" reports 0 layers removed and leaves the layer and
  its source in the engine. On a style that has a layer of its own named \<open>water-fill\<close>,
  "remove all" removes that layer and counts it.
\<close>

theorem clear_all_goes_by_name:
  "handles (fst (run sampleRuntime
       [(''add_points_to_map'', citiesArgs), (''clear_map_layers'', noArgs)] freshTools))
     = [''cities-1'']
   \<and> map (\<lambda>r. (map c_text (content r), isError r))
        (tl (fst (run sampleRuntime
           [(''add_points_to_map'', citiesArgs), (''clear_map_layers'', noArgs)] freshTools)))
     = [([''Removed 0 layers from the map''], False)]
   \<and> map l_id (layers (mapInstance (snd (run sampleRuntime
        [(''add_points_to_map'', citiesArgs), (''clear_map_layers'', noArgs)] freshTools))))
     = [''cities-1'']
   \<and> map fst (sources (mapInstance (snd (run sampleRuntime
        [(''add_points_to_map'', citiesArgs), (''clear_map_layers'', noArgs)] freshTools))))
     = [''cities-1'']
   \<and> map (\<lambda>r. (map c_text (content r), isError r))
        (fst (run sampleRuntime [(''clear_map_layers'', noArgs)]
           (freshTools\<lparr>mapInstance := styledEngine\<rparr>)))
     = [([''Removed 1 layers from the map''], False)]
   \<and> layers (mapInstance (snd (run sampleRuntime [(''clear_map_layers'', noArgs)]
        (freshTools\<lparr>mapInstance := styledEngine\<rparr>)))) = []"
  by code_simp

text \<open>
  C9. The code at the failing input. A polygon added on a fresh instance returns the
  handle \<open>polygon-layer-1\<close>; its two layers are \<open>polygon-layer-1-fill\<close> and
  \<open>polygon-layer-1-stroke\<close>. Clearing with \<open>layerNames: ["polygon-layer-1"]\<close> finds no
  layer of that name, asks the engine to remove the source while both layers still use
  it, and reports 0 layers removed: both layers and the source are still there.
\<close>

theorem clear_named_polygon_removes_nothing:
  "handles (fst (run sampleRuntime
       [(''add_polygon_to_map'', squareArgs),
        (''clear_map_layers'', noArgs\<lparr>arg_layerNames := Some [''polygon-layer-1'']\<rparr>)]
       freshTools))
     = [''polygon-layer-1'']
   \<and> map (\<lambda>r. (map c_text (content r), isError r))
        (tl (fst (run sampleRuntime
           [(''add_polygon_to_map'', squareArgs),
            (''clear_map_layers'', noArgs\<lparr>arg_layerNames := Some [''polygon-layer-1'']\<rparr>)]
           freshTools)))
     = [([''Removed 0 layers from the map''], False)]
   \<and> map l_id (layers (mapInstance (snd (run sampleRuntime
        [(''add_polygon_to_map'', squareArgs),
         (''clear_map_layers'', noArgs\<lparr>arg_layerNames := Some [''polygon-layer-1'']\<rparr>)]
        freshTools))))
     = [''polygon-layer-1-fill'', ''polygon-layer-1-stroke'']
   \<and> map fst (sources (mapInstance (snd (run sampleRuntime
        [(''add_polygon_to_map'', squareArgs),
         (''clear_map_layers'', noArgs\<lparr>arg_layerNames := Some [''polygon-layer-1'']\<rparr>)]
        freshTools))))
     = [''polygon-layer-1'']"
  by code_simp

end
